theory Spec2Isabelle
  imports Main "HOL-Library.Sublist"
begin

section \<open>Backups of database nodes (testgres/backup.py)\<close>

text \<open>
  The class \<open>NodeBackup\<close> of \<open>testgres/backup.py\<close> is embedded as functions over an
  explicit backup object and an explicit world (file system, temporary-name generator,
  port registry, external tools). Every \<open>raise\<close> of the source is a value \<open>Inl e\<close>.
\<close>

subsection \<open>Paths, file system, exceptions\<close>

text \<open>
  A path is the list of its components, so \<open>os.path.join(d, x)\<close> is \<open>d @ [x]\<close> and
  "\<open>p\<close> lies in the tree rooted at \<open>d\<close>" is \<open>prefix d p\<close>. The file system maps a path
  to the entry found there.
\<close>

type_synonym path = "string list"

datatype entry = Dir | File string

type_synonym filesystem = "path \<Rightarrow> entry option"

datatype exn =
    BackupException string "exn option"
  | OSError string
  | PortAllocationError
  | ExecUtilException string

definition join :: "path \<Rightarrow> string \<Rightarrow> path" where
  "join d x = d @ [x]"

definition path_str :: "path \<Rightarrow> string" where
  "path_str p = concat (map (\<lambda>c. ''/'' @ c) p)"

fun str_nat :: "nat \<Rightarrow> string" where
  "str_nat n =
     (if n < 10 then [char_of (48 + n)]
      else str_nat (n div 10) @ [char_of (48 + n mod 10)])"

declare str_nat.simps [simp del]

text \<open>
  Modelled from the spec: the constants of \<open>testgres/consts.py\<close> are not among the
  sources. The spec only says that the data directory is "a known subdirectory name" of
  the base directory and that a backup keeps "a backup log file" beside it.
\<close>

definition DATA_DIR :: string where
  "DATA_DIR = ''data''"

definition BACKUP_LOG_FILE :: string where
  "BACKUP_LOG_FILE = ''backup.log''"

definition DEFAULT_XLOG_METHOD :: string where
  "DEFAULT_XLOG_METHOD = ''fetch''"

text \<open>
  \<open>PG_CONF_FILE\<close> is the literal \<open>"postgresql.conf"\<close> that \<open>spawn_primary\<close> passes to
  \<open>append_conf\<close>. \<open>RECOVERY_CONF_FILE\<close> names the file of the recovery configuration,
  which \<open>node.py\<close> writes (see \<open>create_recovery_conf\<close> below).
\<close>

definition PG_CONF_FILE :: string where
  "PG_CONF_FILE = ''postgresql.conf''"

definition RECOVERY_CONF_FILE :: string where
  "RECOVERY_CONF_FILE = ''recovery.conf''"

subsection \<open>Nodes\<close>

datatype NodeStatus = Running | Stopped | Uninitialized

text \<open>
  Modelled from the spec: \<open>NodeStatus\<close> is declared in a file that is not among the
  sources. \<open>NodeBackup.__init__\<close> tests \<open>not node.status()\<close>; the spec reads this test
  as "requires \<open>instance.status() = Running\<close>", so only \<open>Running\<close> is truthy.
\<close>

definition status_bool :: "NodeStatus \<Rightarrow> bool" where
  "status_bool s = (s = Running)"

datatype node = Node
  (n_name: string)
  (n_host: string)
  (n_port: nat)
  (n_base_dir: path)
  (should_rm_dirs: bool)
  (n_use_logging: bool)
  (master: "node option")

definition set_should_rm_dirs :: "bool \<Rightarrow> node \<Rightarrow> node" where
  "set_should_rm_dirs v n =
     Node (n_name n) (n_host n) (n_port n) (n_base_dir n) v (n_use_logging n) (master n)"

subsection \<open>The world\<close>

text \<open>
  \<open>tmp_dir\<close> is the directory for temporary files and \<open>tmp_names\<close> are the names
  the temporary-name generator is going to propose there, in order;
  \<open>copy_fault\<close> says whether the operating system lets a copy from one tree to another
  go through (\<open>None\<close>) or stops it with an exception after having copied the entries of a
  given set; \<open>node_status\<close> is the answer of the external control tool for a node;
  \<open>tool\<close> is the effect of an external utility on the file system, with the exception it
  ends in, if any; \<open>utility_calls\<close> records the utilities executed so far.
\<close>

record world =
  fs :: filesystem
  tmp_dir :: path
  tmp_names :: "string list"
  copy_fault :: "path \<Rightarrow> path \<Rightarrow> (exn \<times> (path \<Rightarrow> bool)) option"
  node_status :: "node \<Rightarrow> NodeStatus"
  bound_ports :: "nat list"
  port_range :: "nat list"
  app_names :: nat
  default_user :: string
  bin_dir :: path
  tool :: "string list \<Rightarrow> filesystem \<Rightarrow> exn option \<times> filesystem"
  utility_calls :: "(string list \<times> path) list"

subsection \<open>The standard library calls the source makes\<close>

text \<open>
  \<open>tempfile.mkdtemp()\<close>: tries the proposed names in the directory for temporary
  files, in order, creates a directory at the first one that does not exist yet and
  returns its path; raises when no name is left.
\<close>

fun mkdtemp_names :: "path \<Rightarrow> string list \<Rightarrow> filesystem \<Rightarrow> (path \<times> string list) option" where
  "mkdtemp_names d [] f = None"
| "mkdtemp_names d (x # xs) f =
     (if f (join d x) = None then Some (join d x, xs) else mkdtemp_names d xs f)"

definition mkdtemp :: "world \<Rightarrow> (exn + path) \<times> world" where
  "mkdtemp w =
     (case mkdtemp_names (tmp_dir w) (tmp_names w) (fs w) of
        None \<Rightarrow> (Inl (OSError ''No usable temporary directory name found''),
                 w\<lparr>tmp_names := []\<rparr>)
      | Some (p, ps) \<Rightarrow> (Inr p, w\<lparr>fs := (fs w)(p \<mapsto> Dir), tmp_names := ps\<rparr>))"

text \<open>
  \<open>shutil.copytree(src, dst)\<close>: the source must be a directory and the destination must
  not exist. The entries copied are those of the source tree, re-rooted at \<open>dst\<close>; when
  the copy is stopped, only the entries of the set \<open>done\<close> have been copied.
\<close>

definition copy_entries :: "(path \<Rightarrow> bool) \<Rightarrow> path \<Rightarrow> path \<Rightarrow> filesystem \<Rightarrow> filesystem" where
  "copy_entries done src dst f =
     (\<lambda>p. if prefix dst p \<and> done (drop (length dst) p)
          then f (src @ drop (length dst) p) else f p)"

definition copytree :: "path \<Rightarrow> path \<Rightarrow> world \<Rightarrow> exn option \<times> world" where
  "copytree src dst w =
     (if fs w src \<noteq> Some Dir then (Some (OSError ''No such directory''), w)
      else if fs w dst \<noteq> None then (Some (OSError ''File exists''), w)
      else (case copy_fault w src dst of
              Some (e, done) \<Rightarrow> (Some e, w\<lparr>fs := copy_entries done src dst (fs w)\<rparr>)
            | None \<Rightarrow> (None, w\<lparr>fs := copy_entries (\<lambda>r. True) src dst (fs w)\<rparr>)))"

text \<open>
  \<open>shutil.rmtree(d, ignore_errors=True)\<close>: removes the tree rooted at \<open>d\<close>; with
  \<open>ignore_errors\<close> it never raises, whether \<open>d\<close> exists or not.
\<close>

definition rmtree :: "path \<Rightarrow> filesystem \<Rightarrow> filesystem" where
  "rmtree d f = (\<lambda>p. if prefix d p then None else f p)"

subsection \<open>The parts of the package that backup.py calls\<close>

text \<open>
  Modelled from the spec: \<open>utils.py\<close> is not among the sources. \<open>get_bin_path\<close> names a
  tool of the server's installation, \<open>default_username\<close> is the configured default
  user, and \<open>execute_utility\<close> is the control tool invocation interface: "given a binary
  name, an argument list, and a log-file path, execute the external tool as a
  subprocess"; a failing tool ends in the exception the world gives.
\<close>

definition get_bin_path :: "string \<Rightarrow> world \<Rightarrow> string" where
  "get_bin_path filename w = path_str (join (bin_dir w) filename)"

definition default_username :: "world \<Rightarrow> string" where
  "default_username w = default_user w"

definition execute_utility :: "string list \<Rightarrow> path \<Rightarrow> world \<Rightarrow> exn option \<times> world" where
  "execute_utility args logfile w =
     (case tool w args (fs w) of
        (r, f) \<Rightarrow> (r, w\<lparr>fs := f, utility_calls := utility_calls w @ [(args, logfile)]\<rparr>))"

text \<open>
  Modelled from the spec: \<open>node.py\<close> is not among the sources. An Instance has a
  "unique generated name, data-directory path, claimed port, host/bind address, ... an
  ownership flag indicating whether the data directory should be deleted on
  destruction", is "optionally linked to a source Instance", and claims its port from
  the registry, whose \<open>reserve\<close> "picks an unused port from the allowed range and marks
  it claimed; fails with \<open>PortAllocationError\<close> if no port is free". \<open>status()\<close>
  "returns the current state by querying the external control interface".
\<close>

definition reserve_port :: "world \<Rightarrow> (exn + nat) \<times> world" where
  "reserve_port w =
     (case filter (\<lambda>p. p \<notin> set (bound_ports w)) (port_range w) of
        [] \<Rightarrow> (Inl PortAllocationError, w)
      | p # ps \<Rightarrow> (Inr p, w\<lparr>bound_ports := p # bound_ports w\<rparr>))"

definition generate_app_name :: "world \<Rightarrow> string \<times> world" where
  "generate_app_name w = (''testgres-'' @ str_nat (app_names w), w\<lparr>app_names := Suc (app_names w)\<rparr>)"

definition PostgresNode :: "string option \<Rightarrow> path \<Rightarrow> bool \<Rightarrow> world \<Rightarrow> (exn + node) \<times> world" where
  "PostgresNode name base_dir use_logging w =
     (case (case name of Some s \<Rightarrow> (s, w) | None \<Rightarrow> generate_app_name w) of
        (nm, w1) \<Rightarrow>
          (case reserve_port w1 of
             (Inl e, w2) \<Rightarrow> (Inl e, w2)
           | (Inr p, w2) \<Rightarrow>
               (Inr (Node nm ''127.0.0.1'' p base_dir False use_logging None), w2)))"

definition status :: "node \<Rightarrow> world \<Rightarrow> NodeStatus" where
  "status n w = node_status w n"

definition data_dir :: "node \<Rightarrow> path" where
  "data_dir n = join (n_base_dir n) DATA_DIR"

text \<open>
  Modelled from the spec: \<open>append_conf\<close>, \<open>_assign_master\<close> and
  \<open>_create_recovery_conf\<close> belong to \<open>node.py\<close>. \<open>append_conf\<close> appends a line to a
  configuration file of the node's data directory; \<open>_assign_master\<close> links the node to
  its source Instance; \<open>_create_recovery_conf\<close> writes the "replica-specific
  configuration that designates the source Instance as the streaming/recovery target
  using the captured backup user".
\<close>

definition append_conf :: "string \<Rightarrow> string \<Rightarrow> node \<Rightarrow> world \<Rightarrow> exn option \<times> world" where
  "append_conf filename line n w =
     (let config_name = join (data_dir n) filename in
      if fs w (data_dir n) \<noteq> Some Dir then (Some (OSError ''No such file or directory''), w)
      else (case fs w config_name of
              Some Dir \<Rightarrow> (Some (OSError ''Is a directory''), w)
            | Some (File c) \<Rightarrow>
                (None, w\<lparr>fs := (fs w)(config_name \<mapsto> File (c @ line @ [CHR 0x0A]))\<rparr>)
            | None \<Rightarrow>
                (None, w\<lparr>fs := (fs w)(config_name \<mapsto> File (line @ [CHR 0x0A]))\<rparr>)))"

definition assign_master :: "node \<Rightarrow> node \<Rightarrow> node" where
  "assign_master m n =
     Node (n_name n) (n_host n) (n_port n) (n_base_dir n) (should_rm_dirs n)
       (n_use_logging n) (Some m)"

definition recovery_line :: "string \<Rightarrow> node \<Rightarrow> string \<Rightarrow> string" where
  "recovery_line app m user =
     ''primary_conninfo='' @ [CHR 0x27] @ ''application_name='' @ app
       @ '' host='' @ n_host m @ '' port='' @ str_nat (n_port m)
       @ '' user='' @ user @ [CHR 0x27, CHR 0x0A] @ ''standby_mode=on''"

definition create_recovery_conf :: "string \<Rightarrow> node \<Rightarrow> world \<Rightarrow> exn option \<times> world" where
  "create_recovery_conf user n w =
     (case master n of
        None \<Rightarrow> (Some (OSError ''node has no master''), w)
      | Some m \<Rightarrow> append_conf RECOVERY_CONF_FILE (recovery_line (n_name n) m user) n w)"

subsection \<open>NodeBackup\<close>

record backup =
  original_node :: node
  base_dir :: path
  username :: string
  available :: bool

definition log_file :: "backup \<Rightarrow> path" where
  "log_file b = join (base_dir b) BACKUP_LOG_FILE"

text \<open>
  \<open>NodeBackup.__init__(node, base_dir=None, username=None, xlog_method=DEFAULT)\<close>.
  An omitted argument is \<open>None\<close>; \<open>x or y\<close> takes \<open>y\<close> for \<open>None\<close> and for the empty
  string.
\<close>

definition NodeBackup :: "node \<Rightarrow> path option \<Rightarrow> string option \<Rightarrow> string option \<Rightarrow> world
    \<Rightarrow> (exn + backup) \<times> world" where
  "NodeBackup nd base_dir_arg username_arg xlog_method_arg w =
     (let xlog_method = (case xlog_method_arg of None \<Rightarrow> DEFAULT_XLOG_METHOD | Some x \<Rightarrow> x) in
      if \<not> status_bool (status nd w)
      then (Inl (BackupException ''Node must be running'' None), w)
      else
        let user = (case username_arg of
                      None \<Rightarrow> default_username w
                    | Some u \<Rightarrow> if u = [] then default_username w else u)
        in (case (case base_dir_arg of
                    None \<Rightarrow> mkdtemp w
                  | Some d \<Rightarrow> if d = [] then mkdtemp w else (Inr d, w)) of
              (Inl e, w1) \<Rightarrow> (Inl e, w1)
            | (Inr d, w1) \<Rightarrow>
                let self = \<lparr>original_node = nd, base_dir = d, username = user,
                            available = True\<rparr>;
                    ddir = join (base_dir self) DATA_DIR;
                    params = [get_bin_path ''pg_basebackup'' w1,
                              ''-p'', str_nat (n_port nd),
                              ''-h'', n_host nd,
                              ''-U'', user,
                              ''-D'', path_str ddir,
                              ''-X'', xlog_method]
                in (case execute_utility params (log_file self) w1 of
                      (Some e, w2) \<Rightarrow> (Inl e, w2)
                    | (None, w2) \<Rightarrow> (Inr self, w2))))"

text \<open>\<open>NodeBackup._prepare_dir(destroy)\<close>.\<close>

definition prepare_dir :: "bool \<Rightarrow> backup \<Rightarrow> world \<Rightarrow> (exn + path) \<times> backup \<times> world" where
  "prepare_dir destroy self w =
     (if \<not> available self
      then (Inl (BackupException ''Backup is exhausted'' None), self, w)
      else
        let avail = \<not> destroy in
        if avail then
          (case mkdtemp w of
             (Inl e, w1) \<Rightarrow> (Inl e, self, w1)
           | (Inr dest_base_dir, w1) \<Rightarrow>
               let data1 = join (base_dir self) DATA_DIR;
                   data2 = join dest_base_dir DATA_DIR
               in (case copytree data1 data2 w1 of
                     (Some e, w2) \<Rightarrow>
                       (Inl (BackupException ''Failed to copy files'' (Some e)), self, w2)
                   | (None, w2) \<Rightarrow>
                       (Inr dest_base_dir, self\<lparr>available := avail\<rparr>, w2)))
        else (Inr (base_dir self), self\<lparr>available := avail\<rparr>, w))"

text \<open>
  \<open>NodeBackup.spawn_primary(name=None, destroy=True, use_logging=False)\<close>. An omitted
  \<open>destroy\<close> or \<open>use_logging\<close> is \<open>None\<close> and takes the default of the signature.
\<close>

definition spawn_primary :: "string option \<Rightarrow> bool option \<Rightarrow> bool option \<Rightarrow> backup \<Rightarrow> world
    \<Rightarrow> (exn + node) \<times> backup \<times> world" where
  "spawn_primary name destroy_arg use_logging_arg self w =
     (let destroy = (case destroy_arg of None \<Rightarrow> True | Some d \<Rightarrow> d);
          use_logging = (case use_logging_arg of None \<Rightarrow> False | Some l \<Rightarrow> l)
      in case prepare_dir destroy self w of
           (Inl e, self1, w1) \<Rightarrow> (Inl e, self1, w1)
         | (Inr bdir, self1, w1) \<Rightarrow>
             (case PostgresNode name bdir use_logging w1 of
                (Inl e, w2) \<Rightarrow> (Inl e, self1, w2)
              | (Inr n0, w2) \<Rightarrow>
                  let n = set_should_rm_dirs True n0 in
                  (case append_conf PG_CONF_FILE [CHR 0x0A] n w2 of
                     (Some e, w3) \<Rightarrow> (Inl e, self1, w3)
                   | (None, w3) \<Rightarrow>
                       (case append_conf PG_CONF_FILE (''port = '' @ str_nat (n_port n)) n w3 of
                          (Some e, w4) \<Rightarrow> (Inl e, self1, w4)
                        | (None, w4) \<Rightarrow> (Inr n, self1, w4)))))"

text \<open>\<open>NodeBackup.spawn_replica(name=None, destroy=True, use_logging=False)\<close>.\<close>

definition spawn_replica :: "string option \<Rightarrow> bool option \<Rightarrow> bool option \<Rightarrow> backup \<Rightarrow> world
    \<Rightarrow> (exn + node) \<times> backup \<times> world" where
  "spawn_replica name destroy_arg use_logging_arg self w =
     (let destroy = (case destroy_arg of None \<Rightarrow> True | Some d \<Rightarrow> d);
          use_logging = (case use_logging_arg of None \<Rightarrow> False | Some l \<Rightarrow> l)
      in case spawn_primary name (Some destroy) (Some use_logging) self w of
           (Inl e, self1, w1) \<Rightarrow> (Inl e, self1, w1)
         | (Inr n0, self1, w1) \<Rightarrow>
             let n = assign_master (original_node self1) n0 in
             (case create_recovery_conf (username self1) n w1 of
                (Some e, w2) \<Rightarrow> (Inl e, self1, w2)
              | (None, w2) \<Rightarrow> (Inr n, self1, w2)))"

text \<open>\<open>NodeBackup.cleanup()\<close>, and \<open>__exit__\<close>, which calls it whatever the exit.\<close>

definition cleanup :: "backup \<Rightarrow> world \<Rightarrow> backup \<times> world" where
  "cleanup self w =
     (if available self
      then (self\<lparr>available := False\<rparr>, w\<lparr>fs := rmtree (base_dir self) (fs w)\<rparr>)
      else (self, w))"

definition exit_backup :: "exn option \<Rightarrow> backup \<Rightarrow> world \<Rightarrow> backup \<times> world" where
  "exit_backup exc self w = cleanup self w"

subsection \<open>Sequences of calls on one backup\<close>

text \<open>
  The calls a test can make on a backup object, and the runs of such calls: the backup
  and the world after one call are those the next call starts from.
\<close>

datatype call =
    SpawnPrimary "string option" "bool option" "bool option"
  | SpawnReplica "string option" "bool option" "bool option"
  | Cleanup
  | Exit "exn option"

fun run_call :: "call \<Rightarrow> backup \<Rightarrow> world \<Rightarrow> backup \<times> world" where
  "run_call (SpawnPrimary name destroy use_logging) self w =
     snd (spawn_primary name destroy use_logging self w)"
| "run_call (SpawnReplica name destroy use_logging) self w =
     snd (spawn_replica name destroy use_logging self w)"
| "run_call Cleanup self w = cleanup self w"
| "run_call (Exit exc) self w = exit_backup exc self w"

fun run_calls :: "call list \<Rightarrow> backup \<Rightarrow> world \<Rightarrow> backup \<times> world" where
  "run_calls [] self w = (self, w)"
| "run_calls (c # cs) self w = (case run_call c self w of (self1, w1) \<Rightarrow> run_calls cs self1 w1)"

text \<open>
  \<open>spawn_primary(name, destroy=False, use_logging)\<close> called once for every pair of
  arguments of a list, as \<open>test_backup_multiple\<close> does twice; the nodes are returned
  in the order of the calls, and the first exception ends the run.
\<close>

fun spawn_many :: "(string option \<times> bool option) list \<Rightarrow> backup \<Rightarrow> world
    \<Rightarrow> (exn + node list) \<times> backup \<times> world" where
  "spawn_many [] self w = (Inr [], self, w)"
| "spawn_many ((name, use_logging) # as) self w =
     (case spawn_primary name (Some False) use_logging self w of
        (Inl e, self1, w1) \<Rightarrow> (Inl e, self1, w1)
      | (Inr n, self1, w1) \<Rightarrow>
          (case spawn_many as self1 w1 of
             (Inl e, self2, w2) \<Rightarrow> (Inl e, self2, w2)
           | (Inr ns, self2, w2) \<Rightarrow> (Inr (n # ns), self2, w2)))"

subsection \<open>spawn_replica, as the specification words it\<close>

text \<open>
  The specification describes \<open>spawn_replica\<close> as \<open>spawn_primary\<close> with the same
  arguments, followed by assigning the backup's originating node as the master of the new
  node and by writing the recovery configuration with the user name captured when the
  backup was made; the new node is returned. This definition follows those words: the
  arguments go to \<open>spawn_primary\<close> as they came, and the originating node and the user
  name are those of the backup the call started from.
\<close>

definition spawn_replica_spec :: "string option \<Rightarrow> bool option \<Rightarrow> bool option \<Rightarrow> backup
    \<Rightarrow> world \<Rightarrow> (exn + node) \<times> backup \<times> world" where
  "spawn_replica_spec name destroy_arg use_logging_arg self w =
     (case spawn_primary name destroy_arg use_logging_arg self w of
        (Inl e, self1, w1) \<Rightarrow> (Inl e, self1, w1)
      | (Inr n, self1, w1) \<Rightarrow>
          (case create_recovery_conf (username self)
                  (assign_master (original_node self) n) w1 of
             (Some e, w2) \<Rightarrow> (Inl e, self1, w2)
           | (None, w2) \<Rightarrow> (Inr (assign_master (original_node self) n), self1, w2)))"

subsection \<open>The poll-until primitive\<close>

text \<open>
  Modelled from the spec: \<open>poll_query_until\<close> belongs to \<open>node.py\<close>, which is not among
  the sources; only its test is. The spec: it "repeatedly executes a query against a
  target database until either (a) the first returned scalar equals an expected value
  (default: boolean true), or (b) a maximum attempt count is exhausted. Policy: an empty
  result set or a result with other than exactly one column is a programming error
  (\<open>QueryShapeError\<close>) regardless of attempts remaining -- it is not retried. A query
  execution error is, by default, immediately fatal (\<open>QueryExecutionError\<close>); a
  configuration flag may instead make it retryable like a mismatch. A match on
  \<open>expected = None\<close> means succeeds if the query executes without error and returns no
  meaningful comparison. Exhausting attempts without a match raises \<open>PollTimeout\<close>."

  The database is the function that gives the outcome of the \<open>k\<close>-th execution of the
  query. The result is the error raised, if any, and the number of executions made.
\<close>

datatype scalar = SNull | SBool bool | SInt int | SText string

datatype query_outcome =
    Rows "scalar list list"
  | NoResultSet
  | ExecutionError

datatype expectation = MatchNone | MatchValue scalar

datatype poll_error = QueryShapeError | QueryExecutionError | PollTimeout

fun poll_loop :: "(nat \<Rightarrow> query_outcome) \<Rightarrow> expectation \<Rightarrow> bool \<Rightarrow> nat \<Rightarrow> nat
    \<Rightarrow> poll_error option \<times> nat" where
  "poll_loop db expected retry_errors 0 attempts = (Some PollTimeout, attempts)"
| "poll_loop db expected retry_errors (Suc left) attempts =
     (case db attempts of
        ExecutionError \<Rightarrow>
          if retry_errors then poll_loop db expected retry_errors left (Suc attempts)
          else (Some QueryExecutionError, Suc attempts)
      | NoResultSet \<Rightarrow>
          if expected = MatchNone then (None, Suc attempts)
          else (Some QueryShapeError, Suc attempts)
      | Rows rs \<Rightarrow>
          (case rs of
             [] \<Rightarrow> (Some QueryShapeError, Suc attempts)
           | row # rest \<Rightarrow>
               if length row \<noteq> 1 then (Some QueryShapeError, Suc attempts)
               else if expected = MatchValue (hd row) then (None, Suc attempts)
               else poll_loop db expected retry_errors left (Suc attempts)))"

definition pollQueryUntil :: "(nat \<Rightarrow> query_outcome) \<Rightarrow> expectation option \<Rightarrow> bool \<Rightarrow> nat
    \<Rightarrow> poll_error option \<times> nat" where
  "pollQueryUntil db expected retry_errors maxAttempts =
     poll_loop db (case expected of None \<Rightarrow> MatchValue (SBool True) | Some e \<Rightarrow> e)
       retry_errors maxAttempts 0"

subsection \<open>A concrete world\<close>

text \<open>
  A world in the state \<open>test_backup_multiple\<close> and \<open>test_backup_exhaust\<close> reach after
  \<open>node.backup()\<close>: a running node and a backup of it under the directory for temporary
  files, whose name the generator may propose again.
\<close>

definition node0 :: node where
  "node0 = Node ''node'' ''127.0.0.1'' 5432 [''tmp'', ''nodedir''] True False None"

definition fs0 :: filesystem where
  "fs0 = [[''tmp''] \<mapsto> Dir,
          [''tmp'', ''bk''] \<mapsto> Dir,
          [''tmp'', ''bk'', ''backup.log''] \<mapsto> File ''done'',
          [''tmp'', ''bk'', ''data''] \<mapsto> Dir,
          [''tmp'', ''bk'', ''data'', ''PG_VERSION''] \<mapsto> File ''10'',
          [''tmp'', ''bk'', ''data'', ''postgresql.conf''] \<mapsto> File ''fsync = off'']"

definition world0 :: world where
  "world0 = \<lparr>fs = fs0, tmp_dir = [''tmp''], tmp_names = [''bk'', ''t1'', ''t2'', ''t3''],
     copy_fault = (\<lambda>src dst. None),
     node_status = (\<lambda>n. if n_name n = ''node'' then Running else Stopped),
     bound_ports = [5432], port_range = [5432, 5433, 5434, 5435], app_names = 0,
     default_user = ''postgres'', bin_dir = [''usr'', ''bin''],
     tool = (\<lambda>args f. (None, f)), utility_calls = []\<rparr>"

definition backup0 :: backup where
  "backup0 = \<lparr>original_node = node0, base_dir = [''tmp'', ''bk''], username = ''postgres'',
     available = True\<rparr>"

text \<open>The same world with a disk that fails once the root of a copy has been made.\<close>

definition world_full :: world where
  "world_full = world0\<lparr>copy_fault := (\<lambda>src dst. Some (OSError ''No space left on device'',
     (\<lambda>r. r = [])))\<rparr>"

section \<open>Properties\<close>

subsection \<open>Auxiliary facts\<close>

lemma prepare_dir_exhausted:
  "\<not> available self \<Longrightarrow>
   prepare_dir destroy self w = (Inl (BackupException ''Backup is exhausted'' None), self, w)"
  by (simp add: prepare_dir_def)

lemma spawn_primary_exhausted:
  "\<not> available self \<Longrightarrow>
   spawn_primary name destroy ul self w =
     (Inl (BackupException ''Backup is exhausted'' None), self, w)"
  by (simp add: spawn_primary_def prepare_dir_exhausted)

lemma spawn_replica_exhausted:
  "\<not> available self \<Longrightarrow>
   spawn_replica name destroy ul self w =
     (Inl (BackupException ''Backup is exhausted'' None), self, w)"
  by (simp add: spawn_replica_def spawn_primary_exhausted)

lemma cleanup_exhausted: "\<not> available self \<Longrightarrow> cleanup self w = (self, w)"
  by (simp add: cleanup_def)

lemma run_call_exhausted: "\<not> available self \<Longrightarrow> run_call c self w = (self, w)"
  by (cases c)
     (simp_all add: spawn_primary_exhausted spawn_replica_exhausted cleanup_exhausted
        exit_backup_def)

lemma run_calls_exhausted: "\<not> available self \<Longrightarrow> run_calls cs self w = (self, w)"
  by (induction cs) (simp_all add: run_call_exhausted)

lemma prepare_dir_destroy:
  "available self \<Longrightarrow>
   prepare_dir True self w = (Inr (base_dir self), self\<lparr>available := False\<rparr>, w)"
  by (simp add: prepare_dir_def)

lemma prepare_dir_destroy_flag: "\<not> available (fst (snd (prepare_dir True self w)))"
  by (simp add: prepare_dir_def)



lemma spawn_primary_cases:
  assumes sp: "spawn_primary name destroy ul self w = (r, self', w')"
  obtains (fail) e where "r = Inl e"
      and "self' = fst (snd (prepare_dir (case destroy of None \<Rightarrow> True | Some d \<Rightarrow> d) self w))"
  | (ok) bdir w1 n0 w2 w3 where
        "prepare_dir (case destroy of None \<Rightarrow> True | Some d \<Rightarrow> d) self w = (Inr bdir, self', w1)"
    and "PostgresNode name bdir (case ul of None \<Rightarrow> False | Some l \<Rightarrow> l) w1 = (Inr n0, w2)"
    and "append_conf PG_CONF_FILE [CHR 0x0A] (set_should_rm_dirs True n0) w2 = (None, w3)"
    and "append_conf PG_CONF_FILE (''port = '' @ str_nat (n_port (set_should_rm_dirs True n0)))
           (set_should_rm_dirs True n0) w3 = (None, w')"
    and "r = Inr (set_should_rm_dirs True n0)"
proof -
  let ?d = "case destroy of None \<Rightarrow> True | Some d \<Rightarrow> d"
  let ?u = "case ul of None \<Rightarrow> False | Some l \<Rightarrow> l"
  obtain r0 s1 w1 where pd: "prepare_dir ?d self w = (r0, s1, w1)"
    by (metis prod_cases3)
  show thesis
  proof (cases r0)
    case (Inl e)
    with pd sp have "r = Inl e" "self' = s1"
      by (simp_all add: spawn_primary_def)
    with pd fail show thesis by simp
  next
    case bd: (Inr bdir)
    obtain rn w2 where pn: "PostgresNode name bdir ?u w1 = (rn, w2)"
      by (metis surj_pair)
    show thesis
    proof (cases rn)
      case (Inl e)
      with pd bd pn sp have "r = Inl e" "self' = s1"
        by (simp_all add: spawn_primary_def)
      with pd fail show thesis by simp
    next
      case nd: (Inr n0)
      let ?n = "set_should_rm_dirs True n0"
      obtain x w3 where a1: "append_conf PG_CONF_FILE [CHR 0x0A] ?n w2 = (x, w3)"
        by (metis surj_pair)
      show thesis
      proof (cases x)
        case (Some e)
        with pd bd pn nd a1 sp have "r = Inl e" "self' = s1"
          by (simp_all add: spawn_primary_def)
        with pd fail show thesis by simp
      next
        case x: None
        obtain y w4 where a2:
          "append_conf PG_CONF_FILE (''port = '' @ str_nat (n_port ?n)) ?n w3 = (y, w4)"
          by (metis surj_pair)
        show thesis
        proof (cases y)
          case (Some e)
          with pd bd pn nd a1 x a2 sp have "r = Inl e" "self' = s1"
            by (simp_all add: spawn_primary_def)
          with pd fail show thesis by simp
        next
          case None
          with pd bd pn nd a1 x a2 sp have "r = Inr ?n" "self' = s1" "w' = w4"
            by (simp_all add: spawn_primary_def)
          with pd bd pn nd a1 x a2 None ok show thesis by simp
        qed
      qed
    qed
  qed
qed

lemma spawn_primary_backup:
  "fst (snd (spawn_primary name destroy ul self w)) =
   fst (snd (prepare_dir (case destroy of None \<Rightarrow> True | Some d \<Rightarrow> d) self w))"
proof -
  obtain r self' w' where sp: "spawn_primary name destroy ul self w = (r, self', w')"
    by (metis prod_cases3)
  from sp show ?thesis
    by (cases rule: spawn_primary_cases) (simp_all add: sp)
qed


lemma spawn_replica_primary:
  "fst (snd (spawn_replica name destroy ul self w)) =
   fst (snd (spawn_primary name (Some (case destroy of None \<Rightarrow> True | Some d \<Rightarrow> d))
     (Some (case ul of None \<Rightarrow> False | Some l \<Rightarrow> l)) self w))"
proof -
  obtain r self1 w1 where sp:
    "spawn_primary name (Some (case destroy of None \<Rightarrow> True | Some d \<Rightarrow> d))
       (Some (case ul of None \<Rightarrow> False | Some l \<Rightarrow> l)) self w = (r, self1, w1)"
    by (metis prod_cases3)
  show ?thesis
  proof (cases r)
    case (Inl e)
    with sp show ?thesis by (simp add: spawn_replica_def)
  next
    case (Inr n0)
    obtain x w2 where rc:
      "create_recovery_conf (username self1) (assign_master (original_node self1) n0) w1 = (x, w2)"
      by (metis surj_pair)
    with sp Inr show ?thesis by (cases x) (simp_all add: spawn_replica_def)
  qed
qed

lemma spawn_replica_backup:
  "fst (snd (spawn_replica name destroy ul self w)) =
   fst (snd (prepare_dir (case destroy of None \<Rightarrow> True | Some d \<Rightarrow> d) self w))"
  by (simp add: spawn_replica_primary spawn_primary_backup)

lemma cleanup_flag: "\<not> available (fst (cleanup self w))"
  by (simp add: cleanup_def)


lemma mkdtemp_names_Some:
  "mkdtemp_names d xs f = Some (p, ys) \<Longrightarrow> f p = None \<and> (\<exists>x. p = join d x)"
  by (induction xs) (auto split: if_splits)

lemma mkdtemp_Inr:
  assumes "mkdtemp w = (Inr p, w1)"
  shows "fs w p = None" and "\<exists>x. p = join (tmp_dir w) x"
    and "\<exists>ys. w1 = w\<lparr>fs := (fs w)(p \<mapsto> Dir), tmp_names := ys\<rparr>"
  using assms mkdtemp_names_Some [of "tmp_dir w" "tmp_names w" "fs w"]
  by (auto simp: mkdtemp_def split: option.splits)

lemma copytree_None:
  assumes "copytree src dst w = (None, w2)"
  shows "fs w src = Some Dir" and "fs w dst = None"
    and "w2 = w\<lparr>fs := copy_entries (\<lambda>r. True) src dst (fs w)\<rparr>"
  using assms by (auto simp: copytree_def split: if_splits option.splits)

lemma PostgresNode_Inr:
  assumes "PostgresNode name bdir u w = (Inr n, w2)"
  shows "n_base_dir n = bdir" and "fs w2 = fs w" and "tmp_dir w2 = tmp_dir w"
    and "n_use_logging n = u" and "master n = None"
  using assms
  by (auto simp: PostgresNode_def reserve_port_def generate_app_name_def
      split: option.splits prod.splits sum.splits list.splits)

lemma append_conf_None:
  assumes "append_conf file line n w = (None, w')"
  shows "\<exists>c. w' = w\<lparr>fs := (fs w)(join (data_dir n) file \<mapsto> File c)\<rparr>"
  using assms
  by (auto simp: append_conf_def Let_def split: if_splits option.splits entry.splits)


lemma available_update_True: "available self \<Longrightarrow> self\<lparr>available := True\<rparr> = self"
  by (cases self) simp

lemma prepare_dir_False:
  "available self \<Longrightarrow>
   prepare_dir False self w =
     (case mkdtemp w of
        (Inl e, w1) \<Rightarrow> (Inl e, self, w1)
      | (Inr d, w1) \<Rightarrow>
          (case copytree (join (base_dir self) DATA_DIR) (join d DATA_DIR) w1 of
             (Some e, w2) \<Rightarrow> (Inl (BackupException ''Failed to copy files'' (Some e)), self, w2)
           | (None, w2) \<Rightarrow> (Inr d, self, w2)))"
  by (simp add: prepare_dir_def Let_def available_update_True
      split: prod.splits sum.splits option.splits)

lemma prepare_dir_keep:
  assumes av: "available self"
      and pd: "prepare_dir False self w = (Inr d, self', w')"
  shows "self' = self" and "fs w d = None" and "\<exists>x. d = join (tmp_dir w) x"
    and "d \<noteq> base_dir self"
    and "\<exists>ys. w' = w\<lparr>fs := copy_entries (\<lambda>r. True) (join (base_dir self) DATA_DIR)
            (join d DATA_DIR) ((fs w)(d \<mapsto> Dir)), tmp_names := ys\<rparr>"
proof -
  note pd' = pd [unfolded prepare_dir_False [OF av]]
  obtain r w1 where mk: "mkdtemp w = (r, w1)" by (cases "mkdtemp w") blast
  from pd' mk obtain d0 where r: "r = Inr d0"
    by (cases r) simp_all
  obtain x w2 where ct:
    "copytree (join (base_dir self) DATA_DIR) (join d0 DATA_DIR) w1 = (x, w2)"
    by (cases "copytree (join (base_dir self) DATA_DIR) (join d0 DATA_DIR) w1") blast
  from pd' mk r ct have x: "x = None"
    by (cases x) simp_all
  from pd' mk r ct x have d: "d0 = d" and s: "self' = self" and w2: "w2 = w'"
    by simp_all
  from mk r d have m: "mkdtemp w = (Inr d, w1)" by simp
  from ct x d w2 have c: "copytree (join (base_dir self) DATA_DIR) (join d DATA_DIR) w1 = (None, w')"
    by simp
  from mkdtemp_Inr(3) [OF m] obtain ys where w1:
    "w1 = w\<lparr>fs := (fs w)(d \<mapsto> Dir), tmp_names := ys\<rparr>" by blast
  show "self' = self" by (rule s)
  show "fs w d = None" by (rule mkdtemp_Inr(1) [OF m])
  show "\<exists>x. d = join (tmp_dir w) x" by (rule mkdtemp_Inr(2) [OF m])
  have "fs w1 (join (base_dir self) DATA_DIR) = Some Dir" "fs w1 (join d DATA_DIR) = None"
    using copytree_None(1,2) [OF c] by simp_all
  then show "d \<noteq> base_dir self" by auto
  have "w' = w1\<lparr>fs := copy_entries (\<lambda>r. True) (join (base_dir self) DATA_DIR)
      (join d DATA_DIR) (fs w1)\<rparr>"
    by (rule copytree_None(3) [OF c])
  then have "w' = w\<lparr>fs := copy_entries (\<lambda>r. True) (join (base_dir self) DATA_DIR)
            (join d DATA_DIR) ((fs w)(d \<mapsto> Dir)), tmp_names := ys\<rparr>"
    by (simp add: w1)
  then show "\<exists>ys. w' = w\<lparr>fs := copy_entries (\<lambda>r. True) (join (base_dir self) DATA_DIR)
            (join d DATA_DIR) ((fs w)(d \<mapsto> Dir)), tmp_names := ys\<rparr>"
    by blast
qed

lemma spawn_primary_keep:
  assumes av: "available self"
      and sp: "spawn_primary name (Some False) ul self w = (Inr n, self', w')"
  shows "self' = self" and "fs w (n_base_dir n) = None"
    and "\<exists>x. n_base_dir n = join (tmp_dir w) x"
    and "n_base_dir n \<noteq> base_dir self"
    and "tmp_dir w' = tmp_dir w"
    and "should_rm_dirs n"
    and "\<exists>c. fs w' = (copy_entries (\<lambda>r. True) (join (base_dir self) DATA_DIR)
            (data_dir n) ((fs w)(n_base_dir n \<mapsto> Dir)))(join (data_dir n) PG_CONF_FILE \<mapsto> File c)"
proof -
  from sp obtain bdir w1 n0 w2 w3 where ok:
    "prepare_dir False self w = (Inr bdir, self', w1)"
    "PostgresNode name bdir (case ul of None \<Rightarrow> False | Some l \<Rightarrow> l) w1 = (Inr n0, w2)"
    "append_conf PG_CONF_FILE [CHR 0x0A] (set_should_rm_dirs True n0) w2 = (None, w3)"
    "append_conf PG_CONF_FILE (''port = '' @ str_nat (n_port (set_should_rm_dirs True n0)))
           (set_should_rm_dirs True n0) w3 = (None, w')"
    "Inr n = (Inr (set_should_rm_dirs True n0) :: exn + node)"
    by (cases rule: spawn_primary_cases) auto
    let ?n = "set_should_rm_dirs True n0"
    from ok(5) have n: "n = ?n" by simp
    from ok(1) have pd: "prepare_dir False self w = (Inr bdir, self', w1)" by simp
    note k = prepare_dir_keep [OF av pd]
    note pn = PostgresNode_Inr [OF ok(2)]
    from pn(1) n have bd: "n_base_dir n = bdir" by (simp add: set_should_rm_dirs_def)
    from k(5) obtain ys where w1: "w1 = w\<lparr>fs := copy_entries (\<lambda>r. True) (join (base_dir self) DATA_DIR)
            (join bdir DATA_DIR) ((fs w)(bdir \<mapsto> Dir)), tmp_names := ys\<rparr>" by blast
    from append_conf_None [OF ok(3)] obtain c1 where
      w3: "w3 = w2\<lparr>fs := (fs w2)(join (data_dir ?n) PG_CONF_FILE \<mapsto> File c1)\<rparr>" by blast
    from append_conf_None [OF ok(4)] obtain c2 where
      w': "w' = w3\<lparr>fs := (fs w3)(join (data_dir ?n) PG_CONF_FILE \<mapsto> File c2)\<rparr>" by blast
    show "self' = self" by (rule k(1))
    show "fs w (n_base_dir n) = None" using k(2) bd by simp
    show "\<exists>x. n_base_dir n = join (tmp_dir w) x" using k(3) bd by simp
    show "n_base_dir n \<noteq> base_dir self" using k(4) bd by simp
    show "tmp_dir w' = tmp_dir w" using w' w3 pn(3) w1 by simp
    show "should_rm_dirs n" using n by (simp add: set_should_rm_dirs_def)
    have "fs w' = (copy_entries (\<lambda>r. True) (join (base_dir self) DATA_DIR)
            (data_dir n) ((fs w)(n_base_dir n \<mapsto> Dir)))(join (data_dir n) PG_CONF_FILE \<mapsto> File c2)"
      using w' w3 pn(2) w1 bd n by (simp add: data_dir_def)
    then show "\<exists>c. fs w' = (copy_entries (\<lambda>r. True) (join (base_dir self) DATA_DIR)
            (data_dir n) ((fs w)(n_base_dir n \<mapsto> Dir)))(join (data_dir n) PG_CONF_FILE \<mapsto> File c)"
      by blast
qed

lemma spawn_primary_keep_frame:
  assumes av: "available self"
      and sp: "spawn_primary name (Some False) ul self w = (Inr n, self', w')"
      and np: "\<not> prefix (n_base_dir n) p"
  shows "fs w' p = fs w p"
proof -
  from spawn_primary_keep(7) [OF av sp] obtain c where
    f: "fs w' = (copy_entries (\<lambda>r. True) (join (base_dir self) DATA_DIR)
            (data_dir n) ((fs w)(n_base_dir n \<mapsto> Dir)))(join (data_dir n) PG_CONF_FILE \<mapsto> File c)"
    by blast
  from np have 1: "p \<noteq> join (data_dir n) PG_CONF_FILE"
    by (auto simp: data_dir_def join_def)
  from np have 2: "\<not> prefix (data_dir n) p"
    by (auto simp: data_dir_def join_def dest: append_prefixD)
  from np have 3: "p \<noteq> n_base_dir n" by auto
  show ?thesis by (simp add: f 1 2 3 copy_entries_def)
qed

lemma spawn_primary_keep_dir:
  assumes av: "available self"
      and sp: "spawn_primary name (Some False) ul self w = (Inr n, self', w')"
  shows "fs w' (n_base_dir n) = Some Dir"
proof -
  from spawn_primary_keep(7) [OF av sp] obtain c where
    f: "fs w' = (copy_entries (\<lambda>r. True) (join (base_dir self) DATA_DIR)
            (data_dir n) ((fs w)(n_base_dir n \<mapsto> Dir)))(join (data_dir n) PG_CONF_FILE \<mapsto> File c)"
    by blast
  have 1: "n_base_dir n \<noteq> join (data_dir n) PG_CONF_FILE"
    by (simp add: data_dir_def join_def)
  have 2: "\<not> prefix (data_dir n) (n_base_dir n)"
    by (simp add: data_dir_def join_def)
  show ?thesis by (simp add: f 1 2 copy_entries_def)
qed

lemma spawn_primary_keep_copy:
  assumes av: "available self"
      and sp: "spawn_primary name (Some False) ul self w = (Inr n, self', w')"
      and r: "r \<noteq> [PG_CONF_FILE]"
  shows "fs w' (data_dir n @ r) =
         ((fs w)(n_base_dir n \<mapsto> Dir)) (join (base_dir self) DATA_DIR @ r)"
proof -
  from spawn_primary_keep(7) [OF av sp] obtain c where
    f: "fs w' = (copy_entries (\<lambda>r. True) (join (base_dir self) DATA_DIR)
            (data_dir n) ((fs w)(n_base_dir n \<mapsto> Dir)))(join (data_dir n) PG_CONF_FILE \<mapsto> File c)"
    by blast
  from r have 1: "data_dir n @ r \<noteq> join (data_dir n) PG_CONF_FILE"
    by (simp add: join_def)
  show ?thesis by (simp add: f 1 copy_entries_def)
qed

lemma spawn_many_keep:
  assumes av: "available self"
      and sm: "spawn_many args self w = (Inr ns, self', w')"
  shows "self' = self \<and> tmp_dir w' = tmp_dir w \<and> length ns = length args
       \<and> distinct (map n_base_dir ns)
       \<and> (\<forall>n\<in>set ns. (\<exists>x. n_base_dir n = join (tmp_dir w) x) \<and> fs w (n_base_dir n) = None
              \<and> fs w' (n_base_dir n) \<noteq> None \<and> n_base_dir n \<noteq> base_dir self)
       \<and> (\<forall>y. fs w (join (tmp_dir w) y) \<noteq> None \<longrightarrow> fs w' (join (tmp_dir w) y) \<noteq> None)"
  using sm
proof (induction args arbitrary: w ns)
  case Nil
  then show ?case by simp
next
  case (Cons a args)
  obtain name ul where a: "a = (name, ul)" by (cases a) blast
  obtain r s1 w1 where sp0: "spawn_primary name (Some False) ul self w = (r, s1, w1)"
    by (cases "spawn_primary name (Some False) ul self w") blast
  from Cons.prems a sp0 obtain n where r: "r = Inr n"
    by (cases r) simp_all
  from sp0 r have sp: "spawn_primary name (Some False) ul self w = (Inr n, s1, w1)" by simp
  note k = spawn_primary_keep [OF av sp]
  obtain r2 s2 w2 where sm0: "spawn_many args s1 w1 = (r2, s2, w2)"
    by (cases "spawn_many args s1 w1") blast
  from Cons.prems a sp sm0 obtain ns' where r2: "r2 = Inr ns'"
    by (cases r2) simp_all
  from Cons.prems a sp sm0 r2 have ns: "ns = n # ns'" and s2: "s2 = self'" and w2: "w2 = w'"
    by simp_all
  from sm0 r2 s2 w2 k(1) have sm': "spawn_many args self w1 = (Inr ns', self', w')" by simp
  note ih = Cons.IH [OF sm']
  have sib: "\<And>y. fs w (join (tmp_dir w) y) \<noteq> None \<Longrightarrow> fs w1 (join (tmp_dir w) y) \<noteq> None"
  proof -
    fix y assume ex: "fs w (join (tmp_dir w) y) \<noteq> None"
    from k(3) obtain x where x: "n_base_dir n = join (tmp_dir w) x" by blast
    from ex k(2) x have "x \<noteq> y" by auto
    then have "\<not> prefix (n_base_dir n) (join (tmp_dir w) y)"
      by (simp add: x join_def)
    from spawn_primary_keep_frame [OF av sp this] ex
    show "fs w1 (join (tmp_dir w) y) \<noteq> None" by simp
  qed
  have n1: "fs w1 (n_base_dir n) \<noteq> None"
    using spawn_primary_keep_dir [OF av sp] by simp
  have fresh: "\<forall>m\<in>set ns'. fs w (n_base_dir m) = None"
  proof
    fix m assume m: "m \<in> set ns'"
    with ih k(5) obtain y where y: "n_base_dir m = join (tmp_dir w) y"
      and "fs w1 (n_base_dir m) = None" by auto
    with sib [of y] show "fs w (n_base_dir m) = None" by (cases "fs w (join (tmp_dir w) y)") auto
  qed
  have notin: "n_base_dir n \<notin> set (map n_base_dir ns')"
    using ih n1 by auto
  have last: "fs w' (n_base_dir n) \<noteq> None"
    using ih k(3) k(5) n1 by auto
  show ?case
    using ih k ns fresh notin last sib by auto
qed

lemmas run_defs = spawn_primary_def prepare_dir_def mkdtemp_def join_def
    copytree_def DATA_DIR_def PostgresNode_def reserve_port_def set_should_rm_dirs_def
    append_conf_def data_dir_def PG_CONF_FILE_def copy_entries_def Let_def spawn_replica_def
    create_recovery_conf_def assign_master_def RECOVERY_CONF_FILE_def generate_app_name_def
    cleanup_def rmtree_def

lemmas ex_defs = backup0_def world0_def fs0_def node0_def world_full_def

subsection \<open>Exhausted backups\<close>

text \<open>
  Claim C1. A backup whose availability flag is cleared refuses every later
  \<open>spawn_primary\<close> and \<open>spawn_replica\<close>: the call raises \<open>BackupException\<close> with the
  message "Backup is exhausted" and leaves the backup and the world as they were, so no
  node and no directory is made. This stays so after any further calls on the backup
  (they all leave it as it is). The flag is cleared by \<open>cleanup\<close> and by a spawn with
  \<open>destroy=True\<close>.
\<close>

theorem exhausted_backup_refuses_spawn:
  assumes "\<not> available self"
  shows "spawn_primary name destroy use_logging self w =
           (Inl (BackupException ''Backup is exhausted'' None), self, w)
       \<and> spawn_replica name destroy use_logging self w =
           (Inl (BackupException ''Backup is exhausted'' None), self, w)
       \<and> run_calls cs self w = (self, w)
       \<and> \<not> available (fst (cleanup self0 w0))
       \<and> \<not> available (fst (snd (spawn_primary name0 (Some True) use_logging0 self0 w0)))
       \<and> \<not> available (fst (snd (spawn_replica name0 (Some True) use_logging0 self0 w0)))"
  using assms
  by (simp add: spawn_primary_exhausted spawn_replica_exhausted run_calls_exhausted
      cleanup_flag spawn_primary_backup spawn_replica_backup prepare_dir_destroy_flag)

theorem exhausted_backup_refuses_spawn_witness:
  "\<not> available (fst (cleanup backup0 world0))
   \<and> spawn_primary (Some ''node2'') None None (fst (cleanup backup0 world0)) world0 =
       (Inl (BackupException ''Backup is exhausted'' None), fst (cleanup backup0 world0), world0)
   \<and> spawn_replica None (Some False) None (fst (cleanup backup0 world0)) world0 =
       (Inl (BackupException ''Backup is exhausted'' None), fst (cleanup backup0 world0), world0)"
  using exhausted_backup_refuses_spawn [of "fst (cleanup backup0 world0)"]
  by (simp add: cleanup_def backup0_def)

subsection \<open>Spawning with \<open>destroy=False\<close>\<close>

lemma mkdtemp_Some:
  "mkdtemp_names (tmp_dir w) (tmp_names w) (fs w) = Some (d, ys) \<Longrightarrow>
   mkdtemp w = (Inr d, w\<lparr>fs := (fs w)(d \<mapsto> Dir), tmp_names := ys\<rparr>)"
  by (simp add: mkdtemp_def)

lemma PostgresNode_succeeds:
  assumes "\<exists>p\<in>set (port_range w). p \<notin> set (bound_ports w)"
  shows "\<exists>n w2. PostgresNode name bdir u w = (Inr n, w2)"
proof -
  obtain nm w1 where g: "(case name of Some s \<Rightarrow> (s, w) | None \<Rightarrow> generate_app_name w) = (nm, w1)"
    by (cases "case name of Some s \<Rightarrow> (s, w) | None \<Rightarrow> generate_app_name w") blast
  then have "port_range w1 = port_range w" "bound_ports w1 = bound_ports w"
    by (auto simp: generate_app_name_def split: option.splits)
  with assms have "filter (\<lambda>p. p \<notin> set (bound_ports w1)) (port_range w1) \<noteq> []"
    by (auto simp: filter_empty_conv)
  then obtain p ps where "filter (\<lambda>p. p \<notin> set (bound_ports w1)) (port_range w1) = p # ps"
    by (cases "filter (\<lambda>p. p \<notin> set (bound_ports w1)) (port_range w1)") auto
  with g show ?thesis
    by (simp add: PostgresNode_def reserve_port_def)
qed

lemma append_conf_succeeds:
  assumes "fs w (data_dir n) = Some Dir" and "fs w (join (data_dir n) file) \<noteq> Some Dir"
  shows "\<exists>c. append_conf file line n w =
           (None, w\<lparr>fs := (fs w)(join (data_dir n) file \<mapsto> File c)\<rparr>)"
  using assms
  by (cases "fs w (join (data_dir n) file)")
     (auto simp: append_conf_def Let_def split: entry.splits)

lemma spawn_primary_keep_succeeds:
  assumes av: "available self"
      and mk: "mkdtemp_names (tmp_dir w) (tmp_names w) (fs w) = Some (d, ys)"
      and src: "fs w (join (base_dir self) DATA_DIR) = Some Dir"
      and dst: "fs w (join d DATA_DIR) = None"
      and nof: "copy_fault w (join (base_dir self) DATA_DIR) (join d DATA_DIR) = None"
      and port: "\<exists>p\<in>set (port_range w). p \<notin> set (bound_ports w)"
      and conf: "fs w (join (join (base_dir self) DATA_DIR) PG_CONF_FILE) \<noteq> Some Dir"
      and cnd: "join (join (base_dir self) DATA_DIR) PG_CONF_FILE \<noteq> d"
  shows "\<exists>n w'. spawn_primary name (Some False) ul self w = (Inr n, self, w') \<and> n_base_dir n = d"
proof -
  let ?src = "join (base_dir self) DATA_DIR"
  let ?dst = "join d DATA_DIR"
  let ?w1 = "w\<lparr>fs := (fs w)(d \<mapsto> Dir), tmp_names := ys\<rparr>"
  let ?f2 = "copy_entries (\<lambda>r. True) ?src ?dst ((fs w)(d \<mapsto> Dir))"
  define w2 where "w2 = ?w1\<lparr>fs := ?f2\<rparr>"
  from mkdtemp_names_Some [OF mk] have fresh: "fs w d = None" by simp
  with src have sd: "?src \<noteq> d" by auto
  have dd: "?dst \<noteq> d" by (simp add: join_def)
  have m: "mkdtemp w = (Inr d, ?w1)" by (rule mkdtemp_Some [OF mk])
  have c: "copytree ?src ?dst ?w1 = (None, w2)"
    using src dst nof sd dd by (simp add: copytree_def w2_def)
  have pd: "prepare_dir False self w = (Inr d, self, w2)"
    by (simp add: prepare_dir_False [OF av] m c)
  have "\<exists>p\<in>set (port_range w2). p \<notin> set (bound_ports w2)" using port by (simp add: w2_def)
  from PostgresNode_succeeds [OF this, of name d "case ul of None \<Rightarrow> False | Some l \<Rightarrow> l"]
  obtain n0 w3 where pn: "PostgresNode name d (case ul of None \<Rightarrow> False | Some l \<Rightarrow> l) w2 = (Inr n0, w3)"
    by blast
  note k = PostgresNode_Inr [OF pn]
  let ?n = "set_should_rm_dirs True n0"
  have nd: "n_base_dir ?n = d" "data_dir ?n = ?dst"
    using k(1) by (simp_all add: set_should_rm_dirs_def data_dir_def)
  have f3: "fs w3 = ?f2" using k(2) by (simp add: w2_def)
  have d3: "fs w3 (data_dir ?n) = Some Dir"
    using src sd by (simp add: f3 nd copy_entries_def)
  have c3: "fs w3 (join (data_dir ?n) PG_CONF_FILE) \<noteq> Some Dir"
    using conf cnd by (simp add: f3 nd copy_entries_def join_def)
  from append_conf_succeeds [OF d3 c3, of "[CHR 0x0A]"] obtain c1 where
    a1: "append_conf PG_CONF_FILE [CHR 0x0A] ?n w3 =
      (None, w3\<lparr>fs := (fs w3)(join (data_dir ?n) PG_CONF_FILE \<mapsto> File c1)\<rparr>)"
    by blast
  define w4 where "w4 = w3\<lparr>fs := (fs w3)(join (data_dir ?n) PG_CONF_FILE \<mapsto> File c1)\<rparr>"
  have d4: "fs w4 (data_dir ?n) = Some Dir"
    using d3 by (simp add: join_def w4_def)
  have c4: "fs w4 (join (data_dir ?n) PG_CONF_FILE) \<noteq> Some Dir" by (simp add: w4_def)
  from append_conf_succeeds [OF d4 c4, of "''port = '' @ str_nat (n_port ?n)"] obtain c2 where
    a2: "append_conf PG_CONF_FILE (''port = '' @ str_nat (n_port ?n)) ?n w4 =
      (None, w4\<lparr>fs := (fs w4)(join (data_dir ?n) PG_CONF_FILE \<mapsto> File c2)\<rparr>)"
    by blast
  have "spawn_primary name (Some False) ul self w =
     (Inr ?n, self, w4\<lparr>fs := (fs w4)(join (data_dir ?n) PG_CONF_FILE \<mapsto> File c2)\<rparr>)"
    using a2 by (simp add: spawn_primary_def pd pn a1 [folded w4_def] Let_def)
  with nd(1) show ?thesis by blast
qed

lemma append_conf_content:
  assumes "append_conf file line n w = (None, w')"
  shows "w' = w\<lparr>fs := (fs w)(join (data_dir n) file \<mapsto>
           File ((case fs w (join (data_dir n) file) of Some (File c) \<Rightarrow> c | _ \<Rightarrow> [])
                 @ line @ [CHR 0x0A]))\<rparr>"
  using assms
  by (auto simp: append_conf_def Let_def split: if_splits option.splits entry.splits)

lemma spawn_primary_keep_conf:
  assumes av: "available self"
      and sp: "spawn_primary name (Some False) ul self w = (Inr n, self', w')"
  shows "\<exists>w1. prepare_dir False self w = (Inr (n_base_dir n), self, w1)
            \<and> (\<forall>r. fs w1 (data_dir n @ r) =
                  ((fs w)(n_base_dir n \<mapsto> Dir)) (join (base_dir self) DATA_DIR @ r))"
    and "fs w' (join (data_dir n) PG_CONF_FILE) =
           Some (File ((case ((fs w)(n_base_dir n \<mapsto> Dir))
                             (join (join (base_dir self) DATA_DIR) PG_CONF_FILE) of
                          Some (File c) \<Rightarrow> c | _ \<Rightarrow> [])
                       @ [CHR 0x0A, CHR 0x0A] @ ''port = '' @ str_nat (n_port n) @ [CHR 0x0A]))"
proof -
  from sp obtain bdir w1 n0 w2 w3 where ok:
    "prepare_dir False self w = (Inr bdir, self', w1)"
    "PostgresNode name bdir (case ul of None \<Rightarrow> False | Some l \<Rightarrow> l) w1 = (Inr n0, w2)"
    "append_conf PG_CONF_FILE [CHR 0x0A] (set_should_rm_dirs True n0) w2 = (None, w3)"
    "append_conf PG_CONF_FILE (''port = '' @ str_nat (n_port (set_should_rm_dirs True n0)))
           (set_should_rm_dirs True n0) w3 = (None, w')"
    "Inr n = (Inr (set_should_rm_dirs True n0) :: exn + node)"
    by (cases rule: spawn_primary_cases) auto
  let ?n = "set_should_rm_dirs True n0"
  let ?src = "join (base_dir self) DATA_DIR"
  let ?f1 = "(fs w)(n_base_dir n \<mapsto> Dir)"
  let ?conf = "join (data_dir n) PG_CONF_FILE"
  from ok(5) have n: "?n = n" by simp
  note k = prepare_dir_keep [OF av ok(1)]
  note pn = PostgresNode_Inr [OF ok(2)]
  from pn(1) n have bd: "bdir = n_base_dir n" by (auto simp: set_should_rm_dirs_def)
  from k(5) obtain ys where w1: "w1 = w\<lparr>fs := copy_entries (\<lambda>r. True) ?src
            (join bdir DATA_DIR) ((fs w)(bdir \<mapsto> Dir)), tmp_names := ys\<rparr>" by blast
  have f1: "fs w1 (data_dir n @ r) = ?f1 (?src @ r)" for r
    by (simp add: w1 bd data_dir_def copy_entries_def)
  from ok(1) k(1) bd have pd: "prepare_dir False self w = (Inr (n_base_dir n), self, w1)"
    by simp
  with f1 show "\<exists>w1. prepare_dir False self w = (Inr (n_base_dir n), self, w1)
            \<and> (\<forall>r. fs w1 (data_dir n @ r) = ?f1 (?src @ r))"
    by blast
  have c2: "fs w2 ?conf = ?f1 (join ?src PG_CONF_FILE)"
    using f1 [of "[PG_CONF_FILE]"] pn(2) by (simp add: join_def)
  note a1 = append_conf_content [OF ok(3), unfolded n]
  note a2 = append_conf_content [OF ok(4), unfolded n]
  have c3: "fs w3 ?conf = Some (File ((case ?f1 (join ?src PG_CONF_FILE) of
                          Some (File c) \<Rightarrow> c | _ \<Rightarrow> []) @ [CHR 0x0A, CHR 0x0A]))"
    by (subst a1) (simp add: c2)
  show "fs w' ?conf =
           Some (File ((case ?f1 (join ?src PG_CONF_FILE) of
                          Some (File c) \<Rightarrow> c | _ \<Rightarrow> [])
                       @ [CHR 0x0A, CHR 0x0A] @ ''port = '' @ str_nat (n_port n) @ [CHR 0x0A]))"
    by (subst a2) (simp add: c3)
qed


text \<open>
  Claim C2. On an available backup, a \<open>spawn_primary\<close> with \<open>destroy=False\<close> that returns
  a node leaves the backup as it was, so its availability flag is still true. The base
  directory of the node did not exist before the call and is a directory after it; it is
  not the backup's base directory. \<open>_prepare_dir\<close> returns that directory, and when it
  returns every entry of the backup's data directory, \<open>postgresql.conf\<close> too, is found
  at the same relative path in the node's data directory; the backup's data directory is
  read in the file system that holds the new, empty directory. When \<open>spawn_primary\<close>
  returns, this still holds of every entry but \<open>postgresql.conf\<close>, whose content is
  the content copied from the backup (nothing, if the backup has no such file), followed
  by the two lines \<open>spawn_primary\<close> appends: an empty one and the port of the node.
  Nothing outside the new directory changes. Any number of further such calls, as long
  as they return nodes, leave the backup as it was and give base directories that differ
  from one another, from the first node's and from the backup's. And the call can be
  made again: in any world where a temporary name is free, the backup's data directory
  exists, the copy is not stopped, a port is free and \<open>postgresql.conf\<close> is not a
  directory, it returns a node on the directory of that name.
\<close>

theorem spawn_primary_keeps_backup:
  assumes av: "available self"
      and sp: "spawn_primary name (Some False) use_logging self w = (Inr n, self', w')"
  shows "self' = self \<and> available self'
       \<and> fs w (n_base_dir n) = None \<and> fs w' (n_base_dir n) = Some Dir
       \<and> n_base_dir n \<noteq> base_dir self
       \<and> (\<forall>r. r \<noteq> [PG_CONF_FILE] \<longrightarrow>
             fs w' (data_dir n @ r) =
             ((fs w)(n_base_dir n \<mapsto> Dir)) (join (base_dir self) DATA_DIR @ r))
       \<and> (\<forall>p. \<not> prefix (n_base_dir n) p \<longrightarrow> fs w' p = fs w p)
       \<and> (\<forall>args ns self'' w''.
             spawn_many args self' w' = (Inr ns, self'', w'') \<longrightarrow>
               self'' = self \<and> length ns = length args
             \<and> distinct (map n_base_dir (n # ns))
             \<and> base_dir self \<notin> set (map n_base_dir (n # ns)))
       \<and> (\<forall>name2 use_logging2 v d ys.
             mkdtemp_names (tmp_dir v) (tmp_names v) (fs v) = Some (d, ys)
           \<and> fs v (join (base_dir self) DATA_DIR) = Some Dir
           \<and> fs v (join d DATA_DIR) = None
           \<and> copy_fault v (join (base_dir self) DATA_DIR) (join d DATA_DIR) = None
           \<and> (\<exists>p\<in>set (port_range v). p \<notin> set (bound_ports v))
           \<and> fs v (join (join (base_dir self) DATA_DIR) PG_CONF_FILE) \<noteq> Some Dir
           \<and> join (join (base_dir self) DATA_DIR) PG_CONF_FILE \<noteq> d \<longrightarrow>
             (\<exists>n2 v'. spawn_primary name2 (Some False) use_logging2 self' v = (Inr n2, self, v')
                    \<and> n_base_dir n2 = d))
       \<and> (\<exists>w1. prepare_dir False self w = (Inr (n_base_dir n), self, w1)
             \<and> (\<forall>r. fs w1 (data_dir n @ r) =
                   ((fs w)(n_base_dir n \<mapsto> Dir)) (join (base_dir self) DATA_DIR @ r)))
       \<and> fs w' (join (data_dir n) PG_CONF_FILE) =
           Some (File ((case ((fs w)(n_base_dir n \<mapsto> Dir))
                             (join (join (base_dir self) DATA_DIR) PG_CONF_FILE) of
                          Some (File c) \<Rightarrow> c | _ \<Rightarrow> [])
                       @ [CHR 0x0A, CHR 0x0A] @ ''port = '' @ str_nat (n_port n) @ [CHR 0x0A]))"
proof -
  note k = spawn_primary_keep [OF av sp]
  have many: "self'' = self \<and> length ns = length args
             \<and> distinct (map n_base_dir (n # ns))
             \<and> base_dir self \<notin> set (map n_base_dir (n # ns))"
    if sm: "spawn_many args self' w' = (Inr ns, self'', w'')" for args ns self'' w''
  proof -
    from sm k(1) have sm': "spawn_many args self w' = (Inr ns, self'', w'')" by simp
    note m = spawn_many_keep [OF av sm']
    have "fs w' (n_base_dir n) \<noteq> None"
      using spawn_primary_keep_dir [OF av sp] by simp
    with m have "n_base_dir n \<notin> set (map n_base_dir ns)" by auto
    with m k(4) show ?thesis by auto
  qed
  have again: "\<exists>n2 v'. spawn_primary name2 (Some False) use_logging2 self' v = (Inr n2, self, v')
                    \<and> n_base_dir n2 = d"
    if "mkdtemp_names (tmp_dir v) (tmp_names v) (fs v) = Some (d, ys)
           \<and> fs v (join (base_dir self) DATA_DIR) = Some Dir
           \<and> fs v (join d DATA_DIR) = None
           \<and> copy_fault v (join (base_dir self) DATA_DIR) (join d DATA_DIR) = None
           \<and> (\<exists>p\<in>set (port_range v). p \<notin> set (bound_ports v))
           \<and> fs v (join (join (base_dir self) DATA_DIR) PG_CONF_FILE) \<noteq> Some Dir
           \<and> join (join (base_dir self) DATA_DIR) PG_CONF_FILE \<noteq> d"
    for name2 use_logging2 v d ys
    using that spawn_primary_keep_succeeds [OF av, of v d ys name2 use_logging2] k(1)
    by blast
  have first: "self' = self \<and> available self'
       \<and> fs w (n_base_dir n) = None \<and> fs w' (n_base_dir n) = Some Dir
       \<and> n_base_dir n \<noteq> base_dir self
       \<and> (\<forall>r. r \<noteq> [PG_CONF_FILE] \<longrightarrow>
             fs w' (data_dir n @ r) =
             ((fs w)(n_base_dir n \<mapsto> Dir)) (join (base_dir self) DATA_DIR @ r))
       \<and> (\<forall>p. \<not> prefix (n_base_dir n) p \<longrightarrow> fs w' p = fs w p)"
    using k(1,2,4) av spawn_primary_keep_dir [OF av sp]
      spawn_primary_keep_copy [OF av sp] spawn_primary_keep_frame [OF av sp]
    by blast
  from many have rep: "\<forall>args ns self'' w''.
             spawn_many args self' w' = (Inr ns, self'', w'') \<longrightarrow>
               self'' = self \<and> length ns = length args
             \<and> distinct (map n_base_dir (n # ns))
             \<and> base_dir self \<notin> set (map n_base_dir (n # ns))"
    by (intro allI impI)
  from again have ag: "\<forall>name2 use_logging2 v d ys.
             mkdtemp_names (tmp_dir v) (tmp_names v) (fs v) = Some (d, ys)
           \<and> fs v (join (base_dir self) DATA_DIR) = Some Dir
           \<and> fs v (join d DATA_DIR) = None
           \<and> copy_fault v (join (base_dir self) DATA_DIR) (join d DATA_DIR) = None
           \<and> (\<exists>p\<in>set (port_range v). p \<notin> set (bound_ports v))
           \<and> fs v (join (join (base_dir self) DATA_DIR) PG_CONF_FILE) \<noteq> Some Dir
           \<and> join (join (base_dir self) DATA_DIR) PG_CONF_FILE \<noteq> d \<longrightarrow>
             (\<exists>n2 v'. spawn_primary name2 (Some False) use_logging2 self' v = (Inr n2, self, v')
                    \<and> n_base_dir n2 = d)"
    by (intro allI impI)
  note cf = spawn_primary_keep_conf [OF av sp]
  from first rep ag cf show ?thesis
    by (elim conjE) (intro conjI; assumption)
qed

theorem spawn_primary_keeps_backup_witness:
  "available backup0
   \<and> spawn_primary (Some ''node1'') (Some False) None backup0 world0 =
       (Inr (Node ''node1'' ''127.0.0.1'' 5433 [''tmp'', ''t1''] True False None), backup0,
        snd (snd (spawn_primary (Some ''node1'') (Some False) None backup0 world0)))
   \<and> fs world0 [''tmp'', ''t1''] = None
   \<and> fs (snd (snd (spawn_primary (Some ''node1'') (Some False) None backup0 world0)))
         [''tmp'', ''t1''] = Some Dir
   \<and> fs (snd (snd (spawn_primary (Some ''node1'') (Some False) None backup0 world0)))
         [''tmp'', ''t1'', ''data'', ''PG_VERSION''] = Some (File ''10'')
   \<and> fs (snd (snd (spawn_primary (Some ''node1'') (Some False) None backup0 world0)))
         [''tmp'', ''bk'', ''data'', ''postgresql.conf''] = Some (File ''fsync = off'')
   \<and> fst (spawn_many [(Some ''node2'', None)] backup0
         (snd (snd (spawn_primary (Some ''node1'') (Some False) None backup0 world0)))) =
       Inr [Node ''node2'' ''127.0.0.1'' 5434 [''tmp'', ''t2''] True False None]
   \<and> distinct [[''tmp'', ''t1''], [''tmp'', ''t2'']]
   \<and> mkdtemp_names (tmp_dir world0) (tmp_names world0) (fs world0) =
       Some ([''tmp'', ''t1''], [''t2'', ''t3''])
   \<and> (\<exists>n2 v'. spawn_primary None (Some False) (Some True) backup0 world0 = (Inr n2, backup0, v')
          \<and> n_base_dir n2 = [''tmp'', ''t1''])
   \<and> fs (snd (snd (spawn_primary (Some ''node1'') (Some False) None backup0 world0)))
         [''tmp'', ''t1'', ''data'', ''postgresql.conf''] =
       Some (File (''fsync = off'' @ [CHR 0x0A, CHR 0x0A] @ ''port = '' @ ''5433'' @ [CHR 0x0A]))"
proof -
  let ?X = "spawn_primary (Some ''node1'') (Some False) None backup0 world0"
  let ?n1 = "Node ''node1'' ''127.0.0.1'' 5433 [''tmp'', ''t1''] True False None"
  let ?n2 = "Node ''node2'' ''127.0.0.1'' 5434 [''tmp'', ''t2''] True False None"
  let ?Y = "spawn_many [(Some ''node2'', None)] (fst (snd ?X)) (snd (snd ?X))"
  have av: "available backup0" by (simp add: backup0_def)
  have e: "fst ?X = Inr ?n1" by (simp add: run_defs ex_defs)
  then have h: "?X = (Inr ?n1, fst (snd ?X), snd (snd ?X))" by (simp add: prod_eq_iff)
  note t = spawn_primary_keeps_backup [OF av h]
  from t have b: "fst (snd ?X) = backup0" by blast
  have e2: "fst ?Y = Inr [?n2]" by (simp add: run_defs ex_defs)
  then have h2: "?Y = (Inr [?n2], fst (snd ?Y), snd (snd ?Y))" by (simp add: prod_eq_iff)
  from t h2 have d: "distinct (map n_base_dir [?n1, ?n2])" by blast
  note h' = h [unfolded b]
  note e2' = e2 [unfolded b]
  have lp: "data_dir ?n1 @ [''PG_VERSION''] = [''tmp'', ''t1'', ''data'', ''PG_VERSION'']"
    by (simp add: data_dir_def join_def DATA_DIR_def)
  have rhs: "((fs world0)(n_base_dir ?n1 \<mapsto> Dir))
      (join (base_dir backup0) DATA_DIR @ [''PG_VERSION'']) = Some (File ''10'')"
    by (simp add: join_def DATA_DIR_def ex_defs)
  from t have "fs (snd (snd ?X)) (data_dir ?n1 @ [''PG_VERSION'']) =
     ((fs world0)(n_base_dir ?n1 \<mapsto> Dir)) (join (base_dir backup0) DATA_DIR @ [''PG_VERSION''])"
    by (simp add: PG_CONF_FILE_def)
  then have c: "fs (snd (snd ?X)) [''tmp'', ''t1'', ''data'', ''PG_VERSION''] = Some (File ''10'')"
    by (simp only: lp rhs)
  have old: "fs world0 [''tmp'', ''bk'', ''data'', ''postgresql.conf''] = Some (File ''fsync = off'')"
    by (simp add: ex_defs)
  from t have "fs (snd (snd ?X)) [''tmp'', ''bk'', ''data'', ''postgresql.conf''] =
     fs world0 [''tmp'', ''bk'', ''data'', ''postgresql.conf'']"
    by simp
  then have f: "fs (snd (snd ?X)) [''tmp'', ''bk'', ''data'', ''postgresql.conf''] =
     Some (File ''fsync = off'')"
    by (simp only: old)
  from t have g: "fs world0 [''tmp'', ''t1''] = None"
     "fs (snd (snd ?X)) [''tmp'', ''t1''] = Some Dir" by simp_all
  from d have d': "distinct [[''tmp'', ''t1''], [''tmp'', ''t2'']]" by simp
  have s1: "mkdtemp_names (tmp_dir world0) (tmp_names world0) (fs world0) =
       Some ([''tmp'', ''t1''], [''t2'', ''t3''])"
    by (simp add: join_def ex_defs)
  have s2: "fs world0 (join (base_dir backup0) DATA_DIR) = Some Dir"
    and s3: "fs world0 (join [''tmp'', ''t1''] DATA_DIR) = None"
    and s4: "copy_fault world0 (join (base_dir backup0) DATA_DIR)
        (join [''tmp'', ''t1''] DATA_DIR) = None"
    and s5: "\<exists>p\<in>set (port_range world0). p \<notin> set (bound_ports world0)"
    and s6: "fs world0 (join (join (base_dir backup0) DATA_DIR) PG_CONF_FILE) \<noteq> Some Dir"
    and s7: "join (join (base_dir backup0) DATA_DIR) PG_CONF_FILE \<noteq> [''tmp'', ''t1'']"
    by (simp_all add: join_def DATA_DIR_def PG_CONF_FILE_def ex_defs)
  from t have ag: "\<forall>name2 use_logging2 v d ys.
             mkdtemp_names (tmp_dir v) (tmp_names v) (fs v) = Some (d, ys)
           \<and> fs v (join (base_dir backup0) DATA_DIR) = Some Dir
           \<and> fs v (join d DATA_DIR) = None
           \<and> copy_fault v (join (base_dir backup0) DATA_DIR) (join d DATA_DIR) = None
           \<and> (\<exists>p\<in>set (port_range v). p \<notin> set (bound_ports v))
           \<and> fs v (join (join (base_dir backup0) DATA_DIR) PG_CONF_FILE) \<noteq> Some Dir
           \<and> join (join (base_dir backup0) DATA_DIR) PG_CONF_FILE \<noteq> d \<longrightarrow>
             (\<exists>n2 v'. spawn_primary name2 (Some False) use_logging2 (fst (snd ?X)) v =
                      (Inr n2, backup0, v')
                    \<and> n_base_dir n2 = d)"
    by (elim conjE)
  have "\<exists>n2 v'. spawn_primary None (Some False) (Some True) (fst (snd ?X)) world0 =
              (Inr n2, backup0, v') \<and> n_base_dir n2 = [''tmp'', ''t1'']"
    by (rule ag [rule_format, of world0 "[''tmp'', ''t1'']" "[''t2'', ''t3'']" None "Some True"])
       (intro conjI s1 s2 s3 s4 s5 s6 s7)
  then have s: "\<exists>n2 v'. spawn_primary None (Some False) (Some True) backup0 world0 =
              (Inr n2, backup0, v') \<and> n_base_dir n2 = [''tmp'', ''t1'']"
    unfolding b .
  have cp: "join (data_dir ?n1) PG_CONF_FILE = [''tmp'', ''t1'', ''data'', ''postgresql.conf'']"
    by (simp add: data_dir_def join_def DATA_DIR_def PG_CONF_FILE_def)
  have cc: "(case ((fs world0)(n_base_dir ?n1 \<mapsto> Dir))
                  (join (join (base_dir backup0) DATA_DIR) PG_CONF_FILE) of
               Some (File c) \<Rightarrow> c | _ \<Rightarrow> []) = ''fsync = off''"
    by (simp add: join_def DATA_DIR_def PG_CONF_FILE_def ex_defs)
  have sn: "str_nat (n_port ?n1) = ''5433''"
    by (simp add: str_nat.simps char_of_def bit_0 bit_Suc_0_iff)
  from t have "fs (snd (snd ?X)) (join (data_dir ?n1) PG_CONF_FILE) =
           Some (File ((case ((fs world0)(n_base_dir ?n1 \<mapsto> Dir))
                             (join (join (base_dir backup0) DATA_DIR) PG_CONF_FILE) of
                          Some (File c) \<Rightarrow> c | _ \<Rightarrow> [])
                       @ [CHR 0x0A, CHR 0x0A] @ ''port = '' @ str_nat (n_port ?n1)
                       @ [CHR 0x0A]))"
    by (elim conjE)
  then have cf: "fs (snd (snd ?X)) [''tmp'', ''t1'', ''data'', ''postgresql.conf''] =
       Some (File (''fsync = off'' @ [CHR 0x0A, CHR 0x0A] @ ''port = '' @ ''5433'' @ [CHR 0x0A]))"
    by (simp only: cp cc sn)
  from av h' g c f e2' d' s1 s cf show ?thesis
    by - (intro conjI; assumption)
qed

subsection \<open>Spawning with \<open>destroy=True\<close>\<close>

lemma PostgresNode_tmp_names:
  "PostgresNode name bdir u w = (r, w2) \<Longrightarrow> tmp_names w2 = tmp_names w \<and> fs w2 = fs w"
  by (auto simp: PostgresNode_def reserve_port_def generate_app_name_def
      split: option.splits prod.splits sum.splits list.splits)

lemma append_conf_frame:
  assumes "append_conf file line n w = (r, w')"
  shows "tmp_names w' = tmp_names w" and "p \<noteq> join (data_dir n) file \<Longrightarrow> fs w' p = fs w p"
  using assms
  by (auto simp: append_conf_def Let_def split: if_splits option.splits entry.splits)

lemma spawn_primary_destroy:
  assumes av: "available self"
      and sp: "spawn_primary name (Some True) ul self w = (Inr n, self', w')"
  shows "n_base_dir n = base_dir self" and "self' = self\<lparr>available := False\<rparr>"
    and "tmp_names w' = tmp_names w"
    and "p \<noteq> join (join (base_dir self) DATA_DIR) PG_CONF_FILE \<Longrightarrow> fs w' p = fs w p"
proof -
  from sp obtain bdir w1 n0 w2 w3 where ok:
    "prepare_dir True self w = (Inr bdir, self', w1)"
    "PostgresNode name bdir (case ul of None \<Rightarrow> False | Some l \<Rightarrow> l) w1 = (Inr n0, w2)"
    "append_conf PG_CONF_FILE [CHR 0x0A] (set_should_rm_dirs True n0) w2 = (None, w3)"
    "append_conf PG_CONF_FILE (''port = '' @ str_nat (n_port (set_should_rm_dirs True n0)))
           (set_should_rm_dirs True n0) w3 = (None, w')"
    "Inr n = (Inr (set_should_rm_dirs True n0) :: exn + node)"
    by (cases rule: spawn_primary_cases) auto
  let ?n = "set_should_rm_dirs True n0"
  from ok(5) have n: "n = ?n" by simp
  from ok(1) prepare_dir_destroy [OF av, of w]
  have bd: "bdir = base_dir self" and s: "self' = self\<lparr>available := False\<rparr>" and w1: "w1 = w"
    by simp_all
  note pn = PostgresNode_Inr [OF ok(2)] PostgresNode_tmp_names [OF ok(2)]
  from pn(1) n bd show b: "n_base_dir n = base_dir self" by (simp add: set_should_rm_dirs_def)
  show "self' = self\<lparr>available := False\<rparr>" by (rule s)
  show "tmp_names w' = tmp_names w"
    using append_conf_frame(1) [OF ok(3)] append_conf_frame(1) [OF ok(4)] pn w1 by simp
  have dd: "data_dir ?n = join (base_dir self) DATA_DIR"
    using b n by (simp add: data_dir_def)
  show "fs w' p = fs w p" if "p \<noteq> join (join (base_dir self) DATA_DIR) PG_CONF_FILE"
    using that append_conf_frame(2) [OF ok(3), of p] append_conf_frame(2) [OF ok(4), of p] pn w1 dd
    by simp
qed

text \<open>
  Claim C3. On an available backup, \<open>spawn_primary\<close> with \<open>destroy=True\<close> makes no copy:
  \<open>_prepare_dir\<close> returns the backup's own base directory and leaves the world as it
  is, no temporary name is used, and the only path whose entry may change is the
  \<open>postgresql.conf\<close> of the backup's data directory, to which the new node's port is
  appended. The node returned has the backup's base directory as its base directory. The
  availability flag is cleared by the call, whether a node is returned or not, and
  stays cleared after any further calls on the backup.
\<close>

theorem spawn_primary_destroy_hands_over:
  assumes av: "available self"
  shows "prepare_dir True self w = (Inr (base_dir self), self\<lparr>available := False\<rparr>, w)
       \<and> \<not> available (fst (snd (spawn_primary name (Some True) use_logging self w)))
       \<and> (\<forall>n self' w'.
             spawn_primary name (Some True) use_logging self w = (Inr n, self', w') \<longrightarrow>
               n_base_dir n = base_dir self \<and> self' = self\<lparr>available := False\<rparr>
             \<and> tmp_names w' = tmp_names w
             \<and> (\<forall>p. p \<noteq> join (join (base_dir self) DATA_DIR) PG_CONF_FILE \<longrightarrow>
                    fs w' p = fs w p))
       \<and> (\<forall>cs w2. \<not> available (fst (run_calls cs
               (fst (snd (spawn_primary name (Some True) use_logging self w))) w2)))"
proof -
  have 1: "\<not> available (fst (snd (spawn_primary name (Some True) use_logging self w)))"
    by (simp add: spawn_primary_backup prepare_dir_destroy_flag)
  then have 2: "\<not> available (fst (run_calls cs
               (fst (snd (spawn_primary name (Some True) use_logging self w))) w2))" for cs w2
    by (simp add: run_calls_exhausted)
  have 3: "n_base_dir n = base_dir self \<and> self' = self\<lparr>available := False\<rparr>
             \<and> tmp_names w' = tmp_names w
             \<and> (\<forall>p. p \<noteq> join (join (base_dir self) DATA_DIR) PG_CONF_FILE \<longrightarrow>
                    fs w' p = fs w p)"
    if "spawn_primary name (Some True) use_logging self w = (Inr n, self', w')" for n self' w'
    using spawn_primary_destroy [OF av that] by auto
  from 1 2 3 show ?thesis
    by (simp only: prepare_dir_destroy [OF av]) blast
qed

theorem spawn_primary_destroy_hands_over_witness:
  "available backup0
   \<and> fst (spawn_primary (Some ''node1'') (Some True) None backup0 world0) =
       Inr (Node ''node1'' ''127.0.0.1'' 5433 [''tmp'', ''bk''] True False None)
   \<and> \<not> available (fst (snd (spawn_primary (Some ''node1'') (Some True) None backup0 world0)))
   \<and> fs (snd (snd (spawn_primary (Some ''node1'') (Some True) None backup0 world0)))
         [''tmp'', ''t1''] = None"
proof -
  let ?X = "spawn_primary (Some ''node1'') (Some True) None backup0 world0"
  let ?n1 = "Node ''node1'' ''127.0.0.1'' 5433 [''tmp'', ''bk''] True False None"
  have av: "available backup0" by (simp add: backup0_def)
  have e: "fst ?X = Inr ?n1" by (simp add: run_defs ex_defs)
  then have h: "?X = (Inr ?n1, fst (snd ?X), snd (snd ?X))" by (simp add: prod_eq_iff)
  note t = spawn_primary_destroy_hands_over [OF av, of world0 "Some ''node1''" None]
  from t have a: "\<not> available (fst (snd ?X))" by blast
  have ne: "[''tmp'', ''t1''] \<noteq> join (join (base_dir backup0) DATA_DIR) PG_CONF_FILE"
    by (simp add: join_def DATA_DIR_def)
  from t h ne have "fs (snd (snd ?X)) [''tmp'', ''t1''] = fs world0 [''tmp'', ''t1'']"
    by blast
  moreover have "fs world0 [''tmp'', ''t1''] = None" by (simp add: ex_defs)
  ultimately have f: "fs (snd (snd ?X)) [''tmp'', ''t1''] = None" by (simp only:)
  from av e a f show ?thesis by blast
qed

subsection \<open>Cleanup\<close>

lemma rmtree_missing: "(\<And>p. prefix d p \<Longrightarrow> f p = None) \<Longrightarrow> rmtree d f = f"
  by (auto simp: rmtree_def)

text \<open>
  Claim C7. \<open>cleanup\<close> is idempotent: a second \<open>cleanup\<close>, or the \<open>__exit__\<close> of the
  context manager, after a first one changes neither the backup nor the world, and so
  does any run of further calls. On an available backup the first \<open>cleanup\<close> removes
  every entry at or below the backup's base directory, keeps every other entry and
  clears the flag; when nothing exists there, the file system is left as it is (the call
  has no exception to raise). On an exhausted backup \<open>cleanup\<close> and \<open>__exit__\<close> do nothing.
\<close>

theorem cleanup_idempotent:
  "cleanup (fst (cleanup self w)) (snd (cleanup self w)) = cleanup self w
   \<and> exit_backup exc (fst (cleanup self w)) (snd (cleanup self w)) = cleanup self w
   \<and> \<not> available (fst (cleanup self w))
   \<and> (\<forall>cs w2. run_calls cs (fst (cleanup self w)) w2 = (fst (cleanup self w), w2))
   \<and> (available self \<longrightarrow>
         cleanup self w =
           (self\<lparr>available := False\<rparr>, w\<lparr>fs := rmtree (base_dir self) (fs w)\<rparr>)
       \<and> (\<forall>p. prefix (base_dir self) p \<longrightarrow> fs (snd (cleanup self w)) p = None)
       \<and> (\<forall>p. \<not> prefix (base_dir self) p \<longrightarrow> fs (snd (cleanup self w)) p = fs w p)
       \<and> ((\<forall>p. prefix (base_dir self) p \<longrightarrow> fs w p = None) \<longrightarrow>
             fs (snd (cleanup self w)) = fs w))
   \<and> (\<not> available self \<longrightarrow>
         cleanup self w = (self, w) \<and> exit_backup exc self w = (self, w))"
proof -
  have 1: "\<not> available (fst (cleanup self w))" by (rule cleanup_flag)
  then have 2: "run_calls cs (fst (cleanup self w)) w2 = (fst (cleanup self w), w2)" for cs w2
    by (rule run_calls_exhausted)
  have 3: "cleanup (fst (cleanup self w)) (snd (cleanup self w)) = cleanup self w"
    using cleanup_exhausted [OF 1, of "snd (cleanup self w)"] by simp
  have 4: "(\<forall>p. prefix (base_dir self) p \<longrightarrow> fs w p = None) \<longrightarrow>
             rmtree (base_dir self) (fs w) = fs w"
    using rmtree_missing [of "base_dir self" "fs w"] by blast
  show ?thesis
    using 1 2 3 4 by (simp add: exit_backup_def cleanup_def rmtree_def)
qed

theorem cleanup_idempotent_witness:
  "available backup0
   \<and> fs world0 [''tmp'', ''bk'', ''data''] = Some Dir
   \<and> fs (snd (cleanup backup0 world0)) [''tmp'', ''bk'', ''data''] = None
   \<and> fs (snd (cleanup backup0 world0)) [''tmp''] = Some Dir
   \<and> cleanup (fst (cleanup backup0 world0)) (snd (cleanup backup0 world0)) =
       cleanup backup0 world0
   \<and> exit_backup None (fst (cleanup backup0 world0)) (snd (cleanup backup0 world0)) =
       cleanup backup0 world0"
proof -
  have av: "available backup0" by (simp add: backup0_def)
  note t = cleanup_idempotent [of backup0 world0 None]
  have p1: "prefix (base_dir backup0) [''tmp'', ''bk'', ''data'']"
    and p2: "\<not> prefix (base_dir backup0) [''tmp'']"
    by (simp_all add: backup0_def)
  from t av p1 have a: "fs (snd (cleanup backup0 world0)) [''tmp'', ''bk'', ''data''] = None"
    by blast
  from t av p2 have "fs (snd (cleanup backup0 world0)) [''tmp''] = fs world0 [''tmp'']"
    by blast
  moreover have "fs world0 [''tmp''] = Some Dir" by (simp add: ex_defs)
  ultimately have b: "fs (snd (cleanup backup0 world0)) [''tmp''] = Some Dir"
    by (simp only:)
  have c: "fs world0 [''tmp'', ''bk'', ''data''] = Some Dir" by (simp add: ex_defs)
  from t av a b c show ?thesis by blast
qed

text \<open>
  Claim C10. When \<open>spawn_primary\<close> with \<open>destroy=True\<close> has returned a node, the node's
  base directory is the backup's, and every later \<open>cleanup\<close> or \<open>__exit__\<close> of the
  backup, in whatever world and after whatever further calls on the backup, returns the
  backup and the world unchanged: the directory handed to the node is not deleted.
\<close>

theorem cleanup_after_handover_keeps_files:
  assumes sp: "spawn_primary name (Some True) use_logging self w = (Inr n, self', w')"
  shows "n_base_dir n = base_dir self
       \<and> (\<forall>w2 exc. cleanup self' w2 = (self', w2) \<and> exit_backup exc self' w2 = (self', w2)
              \<and> fs (snd (cleanup self' w2)) (n_base_dir n) = fs w2 (n_base_dir n))
       \<and> (\<forall>cs w2 w3 exc. cleanup (fst (run_calls cs self' w2)) w3 = (self', w3)
              \<and> exit_backup exc (fst (run_calls cs self' w2)) w3 = (self', w3))"
proof -
  have av: "available self"
  proof (rule ccontr)
    assume "\<not> available self"
    from spawn_primary_exhausted [OF this, of name "Some True" use_logging w] sp
    show False by simp
  qed
  from sp have s: "self' = fst (snd (spawn_primary name (Some True) use_logging self w))"
    by simp
  have na: "\<not> available self'"
    unfolding s by (simp add: spawn_primary_backup prepare_dir_destroy_flag)
  have 1: "cleanup self' w2 = (self', w2)" for w2
    using na by (rule cleanup_exhausted)
  have 2: "run_calls cs self' w2 = (self', w2)" for cs w2
    using na by (rule run_calls_exhausted)
  show ?thesis
    using spawn_primary_destroy(1) [OF av sp] 1 2 by (simp add: exit_backup_def)
qed

theorem cleanup_after_handover_keeps_files_witness:
  "fst (spawn_primary (Some ''node1'') (Some True) None backup0 world0) =
     Inr (Node ''node1'' ''127.0.0.1'' 5433 [''tmp'', ''bk''] True False None)
   \<and> fs (snd (cleanup (fst (snd (spawn_primary (Some ''node1'') (Some True) None backup0 world0)))
         (snd (snd (spawn_primary (Some ''node1'') (Some True) None backup0 world0)))))
       [''tmp'', ''bk''] =
     fs (snd (snd (spawn_primary (Some ''node1'') (Some True) None backup0 world0)))
       [''tmp'', ''bk'']"
proof -
  let ?X = "spawn_primary (Some ''node1'') (Some True) None backup0 world0"
  let ?n1 = "Node ''node1'' ''127.0.0.1'' 5433 [''tmp'', ''bk''] True False None"
  have e: "fst ?X = Inr ?n1" by (simp add: run_defs ex_defs)
  then have h: "?X = (Inr ?n1, fst (snd ?X), snd (snd ?X))" by (simp add: prod_eq_iff)
  note t = cleanup_after_handover_keeps_files [OF h]
  from t have "fs (snd (cleanup (fst (snd ?X)) (snd (snd ?X)))) (n_base_dir ?n1) =
      fs (snd (snd ?X)) (n_base_dir ?n1)" by blast
  then have "fs (snd (cleanup (fst (snd ?X)) (snd (snd ?X)))) [''tmp'', ''bk''] =
      fs (snd (snd ?X)) [''tmp'', ''bk'']" by simp
  with e show ?thesis by blast
qed

subsection \<open>A copy that fails\<close>

lemma mkdtemp_Inl: "mkdtemp w = (Inl e, w1) \<Longrightarrow> \<exists>s. e = OSError s"
  by (auto simp: mkdtemp_def split: option.splits)

lemma prepare_dir_not_exhausted:
  assumes av: "available self"
  shows "fst (prepare_dir destroy self w) \<noteq> Inl (BackupException ''Backup is exhausted'' None)"
proof (cases destroy)
  case True
  with prepare_dir_destroy [OF av, of w] show ?thesis by simp
next
  case False
  obtain r w1 where mk: "mkdtemp w = (r, w1)" by (cases "mkdtemp w") blast
  show ?thesis
  proof (cases r)
    case (Inl e)
    with mk mkdtemp_Inl [of w e w1] False show ?thesis
      by (auto simp: prepare_dir_False [OF av])
  next
    case (Inr d)
    obtain x w2 where "copytree (join (base_dir self) DATA_DIR) (join d DATA_DIR) w1 = (x, w2)"
      by (cases "copytree (join (base_dir self) DATA_DIR) (join d DATA_DIR) w1") blast
    with mk Inr False show ?thesis
      by (cases x) (simp_all add: prepare_dir_False [OF av])
  qed
qed

lemma copytree_frame:
  "copytree src dst w = (r, w2) \<Longrightarrow> \<not> prefix dst p \<Longrightarrow> fs w2 p = fs w p"
  by (auto simp: copytree_def copy_entries_def split: if_splits option.splits)

text \<open>
  Claim C4. When, in \<open>spawn_primary\<close> with \<open>destroy=False\<close> on an available backup, the
  copy of the data directory ends in an exception, whichever it is, the call raises
  \<open>BackupException\<close> ("Failed to copy files", with the exception as its cause) and the
  backup is returned as it was, still available. The failed copy has changed nothing
  outside its destination, and no later spawn on this backup is refused as exhausted.
\<close>

theorem copy_failure_keeps_backup:
  assumes av: "available self"
      and mk: "mkdtemp w = (Inr d, w1)"
      and ct: "copytree (join (base_dir self) DATA_DIR) (join d DATA_DIR) w1 = (Some e, w2)"
  shows "spawn_primary name (Some False) use_logging self w =
           (Inl (BackupException ''Failed to copy files'' (Some e)), self, w2)
       \<and> available (fst (snd (spawn_primary name (Some False) use_logging self w)))
       \<and> (\<forall>p. \<not> prefix (join d DATA_DIR) p \<longrightarrow> fs w2 p = fs w1 p)
       \<and> (\<forall>destroy w3. fst (prepare_dir destroy self w3) \<noteq>
              Inl (BackupException ''Backup is exhausted'' None))"
proof -
  have pd: "prepare_dir False self w =
      (Inl (BackupException ''Failed to copy files'' (Some e)), self, w2)"
    using mk ct by (simp add: prepare_dir_False [OF av])
  then have sp: "spawn_primary name (Some False) use_logging self w =
           (Inl (BackupException ''Failed to copy files'' (Some e)), self, w2)"
    by (simp add: spawn_primary_def)
  show ?thesis
    using sp av copytree_frame [OF ct] prepare_dir_not_exhausted [OF av] by simp
qed

theorem copy_failure_keeps_backup_witness:
  "available backup0
   \<and> fst (mkdtemp world_full) = Inr [''tmp'', ''t1'']
   \<and> fst (copytree (join (base_dir backup0) DATA_DIR) (join [''tmp'', ''t1''] DATA_DIR)
         (snd (mkdtemp world_full))) = Some (OSError ''No space left on device'')
   \<and> fst (spawn_primary (Some ''node1'') (Some False) None backup0 world_full) =
       Inl (BackupException ''Failed to copy files'' (Some (OSError ''No space left on device'')))
   \<and> fst (snd (spawn_primary (Some ''node1'') (Some False) None backup0 world_full)) = backup0"
proof -
  let ?M = "mkdtemp world_full"
  let ?C = "copytree (join (base_dir backup0) DATA_DIR) (join [''tmp'', ''t1''] DATA_DIR) (snd ?M)"
  have av: "available backup0" by (simp add: backup0_def)
  have m: "fst ?M = Inr [''tmp'', ''t1'']"
    by (simp add: mkdtemp_def join_def ex_defs)
  then have mk: "?M = (Inr [''tmp'', ''t1''], snd ?M)" by (simp add: prod_eq_iff)
  have c: "fst ?C = Some (OSError ''No space left on device'')"
    by (simp add: mkdtemp_def copytree_def join_def DATA_DIR_def ex_defs)
  then have ct: "?C = (Some (OSError ''No space left on device''), snd ?C)"
    by (simp add: prod_eq_iff)
  note t = copy_failure_keeps_backup [OF av mk ct, of "Some ''node1''" None]
  from t have 1: "fst (spawn_primary (Some ''node1'') (Some False) None backup0 world_full) =
       Inl (BackupException ''Failed to copy files'' (Some (OSError ''No space left on device'')))"
    and 2: "fst (snd (spawn_primary (Some ''node1'') (Some False) None backup0 world_full)) = backup0"
    by simp_all
  from av m c 1 2 show ?thesis by blast
qed

subsection \<open>The default of \<open>destroy\<close>\<close>

lemma spawn_primary_default:
  "spawn_primary name None use_logging self w = spawn_primary name (Some True) use_logging self w"
  by (simp add: spawn_primary_def)

lemma spawn_replica_default:
  "spawn_replica name None use_logging self w = spawn_replica name (Some True) use_logging self w"
  by (simp add: spawn_replica_def)

text \<open>
  Claim C5 says that an omitted \<open>destroy\<close> means \<open>destroy=False\<close>, so that the backup
  stays reusable. The signatures say \<open>destroy=True\<close>. As in \<open>test_backup_exhaust\<close>: on
  an available backup, \<open>spawn_primary('node1')\<close> returns a node on the backup's own
  directory, not the node \<open>destroy=False\<close> gives, and leaves the backup exhausted, so
  that \<open>spawn_primary('node2')\<close> raises; \<open>spawn_replica('node1')\<close> exhausts it as well.
\<close>

theorem default_destroy_keeps_backup_counterexample:
  "available backup0
   \<and> fst (spawn_primary (Some ''node1'') None None backup0 world0) =
       Inr (Node ''node1'' ''127.0.0.1'' 5433 [''tmp'', ''bk''] True False None)
   \<and> \<not> available (fst (snd (spawn_primary (Some ''node1'') None None backup0 world0)))
   \<and> fst (spawn_primary (Some ''node1'') None None backup0 world0) \<noteq>
       fst (spawn_primary (Some ''node1'') (Some False) None backup0 world0)
   \<and> fst (spawn_primary (Some ''node2'') None None
         (fst (snd (spawn_primary (Some ''node1'') None None backup0 world0)))
         (snd (snd (spawn_primary (Some ''node1'') None None backup0 world0)))) =
       Inl (BackupException ''Backup is exhausted'' None)
   \<and> \<not> available (fst (snd (spawn_replica (Some ''node1'') None None backup0 world0)))"
proof -
  let ?X = "spawn_primary (Some ''node1'') None None backup0 world0"
  have av: "available backup0" by (simp add: backup0_def)
  have e: "fst ?X = Inr (Node ''node1'' ''127.0.0.1'' 5433 [''tmp'', ''bk''] True False None)"
    by (simp add: run_defs ex_defs)
  have f: "fst (spawn_primary (Some ''node1'') (Some False) None backup0 world0) =
      Inr (Node ''node1'' ''127.0.0.1'' 5433 [''tmp'', ''t1''] True False None)"
    by (simp add: run_defs ex_defs)
  have n: "\<not> available (fst (snd ?X))"
    by (simp add: spawn_primary_backup prepare_dir_destroy_flag)
  have x: "fst (spawn_primary (Some ''node2'') None None (fst (snd ?X)) (snd (snd ?X))) =
       Inl (BackupException ''Backup is exhausted'' None)"
    by (simp add: spawn_primary_exhausted [OF n])
  have r: "\<not> available (fst (snd (spawn_replica (Some ''node1'') None None backup0 world0)))"
    by (simp add: spawn_replica_backup prepare_dir_destroy_flag)
  have d: "fst ?X \<noteq> fst (spawn_primary (Some ''node1'') (Some False) None backup0 world0)"
    by (simp only: e f) simp
  from av e n d x r show ?thesis by blast
qed

text \<open>
  Claim C5, amended. When \<open>destroy\<close> is omitted, \<open>spawn_primary\<close> and \<open>spawn_replica\<close>
  do what they do with \<open>destroy=True\<close>: by default the backup is exhausted after the
  call.
\<close>

theorem default_destroy_exhausts_backup:
  "spawn_primary name None use_logging self w =
     spawn_primary name (Some True) use_logging self w
   \<and> spawn_replica name None use_logging self w =
     spawn_replica name (Some True) use_logging self w
   \<and> \<not> available (fst (snd (spawn_primary name None use_logging self w)))
   \<and> \<not> available (fst (snd (spawn_replica name None use_logging self w)))"
  by (simp add: spawn_primary_default spawn_replica_default spawn_primary_backup
      spawn_replica_backup prepare_dir_destroy_flag)

theorem default_destroy_exhausts_backup_witness:
  "available backup0
   \<and> spawn_primary (Some ''node1'') None None backup0 world0 =
       spawn_primary (Some ''node1'') (Some True) None backup0 world0
   \<and> \<not> available (fst (snd (spawn_primary (Some ''node1'') None None backup0 world0)))
   \<and> \<not> available (fst (snd (spawn_replica (Some ''node1'') None None backup0 world0)))"
proof -
  have av: "available backup0" by (simp add: backup0_def)
  note t = default_destroy_exhausts_backup [of "Some ''node1''" None backup0 world0]
  from av t show ?thesis by blast
qed

subsection \<open>Creating a backup\<close>

lemma execute_utility_calls:
  "utility_calls (snd (execute_utility args logfile w)) = utility_calls w @ [(args, logfile)]"
  by (simp add: execute_utility_def split: prod.splits)

lemma mkdtemp_utility_calls:
  "mkdtemp w = (r, w1) \<Longrightarrow> utility_calls w1 = utility_calls w"
  by (auto simp: mkdtemp_def split: option.splits)

lemma NodeBackup_not_running:
  "status nd w \<noteq> Running \<Longrightarrow>
   NodeBackup nd base_dir_arg username_arg xlog_arg w =
     (Inl (BackupException ''Node must be running'' None), w)"
  by (simp add: NodeBackup_def status_bool_def Let_def)

lemma NodeBackup_running:
  assumes run: "status nd w = Running"
      and dir: "(case base_dir_arg of None \<Rightarrow> mkdtemp w
                 | Some d \<Rightarrow> if d = [] then mkdtemp w else (Inr d, w)) = (Inr d, w1)"
  shows "\<exists>user xlog.
           NodeBackup nd base_dir_arg username_arg xlog_arg w =
             (case execute_utility
                     [get_bin_path ''pg_basebackup'' w1, ''-p'', str_nat (n_port nd),
                      ''-h'', n_host nd, ''-U'', user, ''-D'', path_str (join d DATA_DIR),
                      ''-X'', xlog]
                     (join d BACKUP_LOG_FILE) w1 of
                (Some e, w2) \<Rightarrow> (Inl e, w2)
              | (None, w2) \<Rightarrow>
                  (Inr \<lparr>original_node = nd, base_dir = d, username = user, available = True\<rparr>,
                   w2))"
  using run dir
  by (simp add: NodeBackup_def status_bool_def Let_def log_file_def) blast

text \<open>
  Claim C6. \<open>NodeBackup(node, ...)\<close> on a node whose status is not \<open>Running\<close> raises
  \<open>BackupException\<close> ("Node must be running") and changes nothing. On a running node,
  when no base directory is given, the base directory is the one \<open>mkdtemp\<close> has just
  created (it did not exist before), and \<open>pg_basebackup\<close> is executed exactly once, with
  \<open>-D\<close> the data directory under that base directory and with the log file under it; the
  backup returned, if the tool succeeds, has that base directory. When a base directory is
  given, the tool is executed on it.
\<close>

theorem backup_requires_running_node:
  "(status nd w \<noteq> Running \<longrightarrow>
      NodeBackup nd base_dir_arg username_arg xlog_arg w =
        (Inl (BackupException ''Node must be running'' None), w))
   \<and> (status nd w = Running \<longrightarrow>
        (\<forall>d w1. mkdtemp w = (Inr d, w1) \<longrightarrow>
           fs w d = None \<and> fs w1 d = Some Dir
         \<and> (\<exists>user xlog.
               NodeBackup nd None username_arg xlog_arg w =
                 (case execute_utility
                         [get_bin_path ''pg_basebackup'' w1, ''-p'', str_nat (n_port nd),
                          ''-h'', n_host nd, ''-U'', user, ''-D'', path_str (join d DATA_DIR),
                          ''-X'', xlog]
                         (join d BACKUP_LOG_FILE) w1 of
                    (Some e, w2) \<Rightarrow> (Inl e, w2)
                  | (None, w2) \<Rightarrow>
                      (Inr \<lparr>original_node = nd, base_dir = d, username = user,
                            available = True\<rparr>, w2))
             \<and> utility_calls (snd (NodeBackup nd None username_arg xlog_arg w)) =
                 utility_calls w @
                 [([get_bin_path ''pg_basebackup'' w1, ''-p'', str_nat (n_port nd),
                    ''-h'', n_host nd, ''-U'', user, ''-D'', path_str (join d DATA_DIR),
                    ''-X'', xlog], join d BACKUP_LOG_FILE)]))
      \<and> (\<forall>d. d \<noteq> [] \<longrightarrow>
           (\<exists>user xlog.
               utility_calls (snd (NodeBackup nd (Some d) username_arg xlog_arg w)) =
                 utility_calls w @
                 [([get_bin_path ''pg_basebackup'' w, ''-p'', str_nat (n_port nd),
                    ''-h'', n_host nd, ''-U'', user, ''-D'', path_str (join d DATA_DIR),
                    ''-X'', xlog], join d BACKUP_LOG_FILE)])))"
proof (intro conjI impI allI)
  assume "status nd w \<noteq> Running"
  then show "NodeBackup nd base_dir_arg username_arg xlog_arg w =
        (Inl (BackupException ''Node must be running'' None), w)"
    by (rule NodeBackup_not_running)
next
  fix d w1 assume run: "status nd w = Running" and mk: "mkdtemp w = (Inr d, w1)"
  show "fs w d = None" by (rule mkdtemp_Inr(1) [OF mk])
  from mkdtemp_Inr(3) [OF mk] show "fs w1 d = Some Dir" by auto
  from mk have dir: "(case None :: path option of None \<Rightarrow> mkdtemp w
                 | Some d \<Rightarrow> if d = [] then mkdtemp w else (Inr d, w)) = (Inr d, w1)"
    by simp
  from NodeBackup_running [OF run dir, of username_arg xlog_arg]
  obtain user xlog where nb:
    "NodeBackup nd None username_arg xlog_arg w =
       (case execute_utility
               [get_bin_path ''pg_basebackup'' w1, ''-p'', str_nat (n_port nd),
                ''-h'', n_host nd, ''-U'', user, ''-D'', path_str (join d DATA_DIR),
                ''-X'', xlog]
               (join d BACKUP_LOG_FILE) w1 of
          (Some e, w2) \<Rightarrow> (Inl e, w2)
        | (None, w2) \<Rightarrow>
            (Inr \<lparr>original_node = nd, base_dir = d, username = user,
                  available = True\<rparr>, w2))"
    by blast
  let ?args = "[get_bin_path ''pg_basebackup'' w1, ''-p'', str_nat (n_port nd),
                ''-h'', n_host nd, ''-U'', user, ''-D'', path_str (join d DATA_DIR),
                ''-X'', xlog]"
  have "snd (NodeBackup nd None username_arg xlog_arg w) =
        snd (execute_utility ?args (join d BACKUP_LOG_FILE) w1)"
    unfolding nb
    by (cases "execute_utility ?args (join d BACKUP_LOG_FILE) w1")
       (auto split: option.splits)
  then have "utility_calls (snd (NodeBackup nd None username_arg xlog_arg w)) =
      utility_calls w @ [(?args, join d BACKUP_LOG_FILE)]"
    using execute_utility_calls [of ?args "join d BACKUP_LOG_FILE" w1]
      mkdtemp_utility_calls [OF mk] by simp
  with nb show "\<exists>user xlog.
               NodeBackup nd None username_arg xlog_arg w =
                 (case execute_utility
                         [get_bin_path ''pg_basebackup'' w1, ''-p'', str_nat (n_port nd),
                          ''-h'', n_host nd, ''-U'', user, ''-D'', path_str (join d DATA_DIR),
                          ''-X'', xlog]
                         (join d BACKUP_LOG_FILE) w1 of
                    (Some e, w2) \<Rightarrow> (Inl e, w2)
                  | (None, w2) \<Rightarrow>
                      (Inr \<lparr>original_node = nd, base_dir = d, username = user,
                            available = True\<rparr>, w2))
             \<and> utility_calls (snd (NodeBackup nd None username_arg xlog_arg w)) =
                 utility_calls w @
                 [([get_bin_path ''pg_basebackup'' w1, ''-p'', str_nat (n_port nd),
                    ''-h'', n_host nd, ''-U'', user, ''-D'', path_str (join d DATA_DIR),
                    ''-X'', xlog], join d BACKUP_LOG_FILE)]"
    by blast
next
  fix d :: path assume run: "status nd w = Running" and d: "d \<noteq> []"
  from d have dir: "(case Some d of None \<Rightarrow> mkdtemp w
                 | Some d \<Rightarrow> if d = [] then mkdtemp w else (Inr d, w)) = (Inr d, w)"
    by simp
  from NodeBackup_running [OF run dir, of username_arg xlog_arg]
  obtain user xlog where nb:
    "NodeBackup nd (Some d) username_arg xlog_arg w =
       (case execute_utility
               [get_bin_path ''pg_basebackup'' w, ''-p'', str_nat (n_port nd),
                ''-h'', n_host nd, ''-U'', user, ''-D'', path_str (join d DATA_DIR),
                ''-X'', xlog]
               (join d BACKUP_LOG_FILE) w of
          (Some e, w2) \<Rightarrow> (Inl e, w2)
        | (None, w2) \<Rightarrow>
            (Inr \<lparr>original_node = nd, base_dir = d, username = user,
                  available = True\<rparr>, w2))"
    by blast
  let ?args = "[get_bin_path ''pg_basebackup'' w, ''-p'', str_nat (n_port nd),
                ''-h'', n_host nd, ''-U'', user, ''-D'', path_str (join d DATA_DIR),
                ''-X'', xlog]"
  have "snd (NodeBackup nd (Some d) username_arg xlog_arg w) =
        snd (execute_utility ?args (join d BACKUP_LOG_FILE) w)"
    unfolding nb
    by (cases "execute_utility ?args (join d BACKUP_LOG_FILE) w")
       (auto split: option.splits)
  then have "utility_calls (snd (NodeBackup nd (Some d) username_arg xlog_arg w)) =
      utility_calls w @ [(?args, join d BACKUP_LOG_FILE)]"
    using execute_utility_calls [of ?args "join d BACKUP_LOG_FILE" w] by simp
  then show "\<exists>user xlog.
               utility_calls (snd (NodeBackup nd (Some d) username_arg xlog_arg w)) =
                 utility_calls w @
                 [([get_bin_path ''pg_basebackup'' w, ''-p'', str_nat (n_port nd),
                    ''-h'', n_host nd, ''-U'', user, ''-D'', path_str (join d DATA_DIR),
                    ''-X'', xlog], join d BACKUP_LOG_FILE)]"
    by blast
qed

theorem backup_requires_running_node_witness:
  "status (Node ''idle'' ''127.0.0.1'' 5440 [''tmp'', ''idle''] True False None) world0 \<noteq> Running
   \<and> NodeBackup (Node ''idle'' ''127.0.0.1'' 5440 [''tmp'', ''idle''] True False None)
         None None None world0 =
       (Inl (BackupException ''Node must be running'' None), world0)
   \<and> status node0 world0 = Running
   \<and> fst (mkdtemp world0) = Inr [''tmp'', ''t1'']
   \<and> fs world0 [''tmp'', ''t1''] = None
   \<and> (\<exists>user xlog.
         utility_calls (snd (NodeBackup node0 None None None world0)) =
           utility_calls world0 @
           [([get_bin_path ''pg_basebackup'' (snd (mkdtemp world0)), ''-p'',
              str_nat (n_port node0), ''-h'', n_host node0, ''-U'', user,
              ''-D'', path_str (join [''tmp'', ''t1''] DATA_DIR), ''-X'', xlog],
             join [''tmp'', ''t1''] BACKUP_LOG_FILE)])"
proof -
  let ?idle = "Node ''idle'' ''127.0.0.1'' 5440 [''tmp'', ''idle''] True False None"
  note t1 = backup_requires_running_node [of ?idle world0 None None None]
  note t2 = backup_requires_running_node [of node0 world0 None None None]
  have s1: "status ?idle world0 \<noteq> Running" by (simp add: status_def ex_defs)
  have s2: "status node0 world0 = Running" by (simp add: status_def ex_defs)
  have m: "fst (mkdtemp world0) = Inr [''tmp'', ''t1'']"
    by (simp add: mkdtemp_def join_def ex_defs)
  then have mk: "mkdtemp world0 = (Inr [''tmp'', ''t1''], snd (mkdtemp world0))"
    by (simp add: prod_eq_iff)
  from t1 s1 have a: "NodeBackup ?idle None None None world0 =
       (Inl (BackupException ''Node must be running'' None), world0)" by blast
  from t2 s2 mk have b: "fs world0 [''tmp'', ''t1''] = None" by blast
  from t2 s2 mk have c: "\<exists>user xlog.
         utility_calls (snd (NodeBackup node0 None None None world0)) =
           utility_calls world0 @
           [([get_bin_path ''pg_basebackup'' (snd (mkdtemp world0)), ''-p'',
              str_nat (n_port node0), ''-h'', n_host node0, ''-U'', user,
              ''-D'', path_str (join [''tmp'', ''t1''] DATA_DIR), ''-X'', xlog],
             join [''tmp'', ''t1''] BACKUP_LOG_FILE)]" by blast
  from s1 a s2 m b c show ?thesis by blast
qed

subsection \<open>Replicas\<close>

lemma prepare_dir_fields:
  "original_node (fst (snd (prepare_dir destroy self w))) = original_node self
   \<and> username (fst (snd (prepare_dir destroy self w))) = username self
   \<and> base_dir (fst (snd (prepare_dir destroy self w))) = base_dir self"
  by (simp add: prepare_dir_def Let_def split: prod.splits sum.splits option.splits)

lemma spawn_primary_fields:
  assumes "spawn_primary name destroy ul self w = (r, self', w')"
  shows "original_node self' = original_node self" and "username self' = username self"
    and "base_dir self' = base_dir self"
  using spawn_primary_backup [of name destroy ul self w] prepare_dir_fields assms
  by simp_all

lemma spawn_primary_resolved:
  "spawn_primary name (Some (case destroy of None \<Rightarrow> True | Some d \<Rightarrow> d))
     (Some (case ul of None \<Rightarrow> False | Some l \<Rightarrow> l)) self w =
   spawn_primary name destroy ul self w"
  by (simp add: spawn_primary_def split: option.splits)

lemma spawn_replica_unfold:
  assumes sp: "spawn_primary name destroy ul self w = (r, self1, w1)"
  shows "spawn_replica name destroy ul self w =
          (case r of
             Inl e \<Rightarrow> (Inl e, self1, w1)
           | Inr n0 \<Rightarrow>
               (case create_recovery_conf (username self1)
                       (assign_master (original_node self1) n0) w1 of
                  (Some e, w2) \<Rightarrow> (Inl e, self1, w2)
                | (None, w2) \<Rightarrow> (Inr (assign_master (original_node self1) n0), self1, w2)))"
  using sp [folded spawn_primary_resolved [of name destroy ul self w]]
  by (simp add: spawn_replica_def Let_def split: sum.splits)

text \<open>
  Claim C8. \<open>spawn_replica\<close>, as the source has it, is \<open>spawn_replica_spec\<close>:
  \<open>spawn_primary\<close> with the same name, \<open>destroy\<close> and logging arguments (an omitted one
  has the same default in both), then the backup's originating node assigned as the
  master of the new node, then the recovery configuration written with the user name the
  backup has had since it was made. When it returns a node, that node is the one
  \<open>spawn_primary\<close> returned, with the originating node as its master, and the recovery
  configuration has been written; when \<open>spawn_primary\<close> raises, \<open>spawn_replica\<close> raises
  the same exception.
\<close>

theorem spawn_replica_is_primary_then_wiring:
  "spawn_replica name destroy use_logging self w =
     spawn_replica_spec name destroy use_logging self w
   \<and> (\<forall>n self' w'.
         spawn_replica name destroy use_logging self w = (Inr n, self', w') \<longrightarrow>
           (\<exists>n0 w1.
              spawn_primary name destroy use_logging self w = (Inr n0, self', w1)
            \<and> n = assign_master (original_node self) n0
            \<and> master n = Some (original_node self)
            \<and> create_recovery_conf (username self) n w1 = (None, w')))
   \<and> (\<forall>e self' w'.
         spawn_primary name destroy use_logging self w = (Inl e, self', w') \<longrightarrow>
           spawn_replica name destroy use_logging self w = (Inl e, self', w'))"
proof -
  obtain r self1 w1 where sp: "spawn_primary name destroy use_logging self w = (r, self1, w1)"
    by (cases "spawn_primary name destroy use_logging self w") blast
  note f = spawn_primary_fields [OF sp]
  note u = spawn_replica_unfold [OF sp, unfolded f(1) f(2)]
  have 1: "spawn_replica name destroy use_logging self w =
     spawn_replica_spec name destroy use_logging self w"
    by (simp add: u spawn_replica_spec_def sp split: sum.splits)
  have 2: "\<exists>n0 w1.
              spawn_primary name destroy use_logging self w = (Inr n0, self', w1)
            \<and> n = assign_master (original_node self) n0
            \<and> master n = Some (original_node self)
            \<and> create_recovery_conf (username self) n w1 = (None, w')"
    if sr: "spawn_replica name destroy use_logging self w = (Inr n, self', w')" for n self' w'
  proof (cases r)
    case (Inl e)
    with sr u show ?thesis by simp
  next
    case (Inr n0)
    obtain x w2 where rc: "create_recovery_conf (username self)
        (assign_master (original_node self) n0) w1 = (x, w2)"
      by (cases "create_recovery_conf (username self)
        (assign_master (original_node self) n0) w1") blast
    from sr u Inr rc f have x: "x = None"
      by (cases x) simp_all
    from sr u Inr rc f x have "n = assign_master (original_node self) n0" "self' = self1" "w' = w2"
      by simp_all
    with sp Inr rc x show ?thesis
      by (auto simp: assign_master_def)
  qed
  have 3: "spawn_replica name destroy use_logging self w = (Inl e, self', w')"
    if "spawn_primary name destroy use_logging self w = (Inl e, self', w')" for e self' w'
    using that sp u by simp
  from 1 2 3 show ?thesis by blast
qed

theorem spawn_replica_is_primary_then_wiring_witness:
  "available backup0
   \<and> fst (spawn_replica (Some ''replica'') (Some False) None backup0 world0) =
       Inr (Node ''replica'' ''127.0.0.1'' 5433 [''tmp'', ''t1''] True False (Some node0))
   \<and> spawn_replica (Some ''replica'') (Some False) None backup0 world0 =
       spawn_replica_spec (Some ''replica'') (Some False) None backup0 world0
   \<and> (\<exists>n0 w1.
         spawn_primary (Some ''replica'') (Some False) None backup0 world0 =
           (Inr n0, fst (snd (spawn_replica (Some ''replica'') (Some False) None backup0 world0)),
            w1)
       \<and> create_recovery_conf (username backup0)
             (Node ''replica'' ''127.0.0.1'' 5433 [''tmp'', ''t1''] True False (Some node0)) w1 =
           (None, snd (snd (spawn_replica (Some ''replica'') (Some False) None backup0 world0))))"
proof -
  let ?X = "spawn_replica (Some ''replica'') (Some False) None backup0 world0"
  let ?n = "Node ''replica'' ''127.0.0.1'' 5433 [''tmp'', ''t1''] True False (Some node0)"
  have av: "available backup0" by (simp add: backup0_def)
  have e: "fst ?X = Inr ?n" by (simp add: run_defs ex_defs)
  then have h: "?X = (Inr ?n, fst (snd ?X), snd (snd ?X))" by (simp add: prod_eq_iff)
  note t = spawn_replica_is_primary_then_wiring [of "Some ''replica''" "Some False" None
      backup0 world0]
  from t have 1: "?X = spawn_replica_spec (Some ''replica'') (Some False) None backup0 world0"
    by blast
  from t h have 2: "\<exists>n0 w1.
         spawn_primary (Some ''replica'') (Some False) None backup0 world0 =
           (Inr n0, fst (snd ?X), w1)
       \<and> create_recovery_conf (username backup0) ?n w1 = (None, snd (snd ?X))"
    by blast
  from av e 1 2 show ?thesis by blast
qed

subsection \<open>Polling\<close>

lemma poll_loop_no_rows:
  "db k = Rows [] \<Longrightarrow>
   poll_loop db expected retry (Suc left) k = (Some QueryShapeError, Suc k)"
  by simp

lemma poll_loop_columns:
  "db k = Rows (row # rest) \<Longrightarrow> length row \<noteq> 1 \<Longrightarrow>
   poll_loop db expected retry (Suc left) k = (Some QueryShapeError, Suc k)"
  by simp

lemma poll_loop_mismatch:
  "db k = Rows ([v] # rest) \<Longrightarrow> expected \<noteq> MatchValue v \<Longrightarrow>
   poll_loop db expected retry (Suc left) k = poll_loop db expected retry left (Suc k)"
  by simp

lemma poll_loop_never_matches:
  "(\<And>j. k \<le> j \<Longrightarrow> j < k + left \<Longrightarrow>
      \<exists>v rest. db j = Rows ([v] # rest) \<and> expected \<noteq> MatchValue v) \<Longrightarrow>
   poll_loop db expected retry left k = (Some PollTimeout, k + left)"
proof (induction left arbitrary: k)
  case 0
  then show ?case by simp
next
  case (Suc left)
  from Suc.prems [of k] obtain v rest where
    d: "db k = Rows ([v] # rest)" and m: "expected \<noteq> MatchValue v" by auto
  have "poll_loop db expected retry left (Suc k) = (Some PollTimeout, Suc k + left)"
    by (rule Suc.IH) (use Suc.prems in auto)
  with poll_loop_mismatch [of db k v rest expected retry left] d m show ?case by simp
qed

text \<open>
  Claim C9. With at least one attempt allowed, a query whose first execution returns no
  row, or a row with other than exactly one column, makes the poll raise the shape error
  after that one execution, whatever the number of attempts allowed; the same holds at
  any later execution the loop reaches (no further attempt is made). A query whose first
  three executions return one row of one column that differs from the expected value,
  polled with three attempts allowed, raises the timeout error after exactly three
  executions.
\<close>

theorem poll_shape_error_and_timeout:
  "(db 0 = Rows [] \<longrightarrow>
      pollQueryUntil db expected retry (Suc left) = (Some QueryShapeError, 1))
   \<and> (\<forall>row rest. db 0 = Rows (row # rest) \<and> length row \<noteq> 1 \<longrightarrow>
         pollQueryUntil db expected retry (Suc left) = (Some QueryShapeError, 1))
   \<and> (\<forall>k. db k = Rows [] \<or> (\<exists>row rest. db k = Rows (row # rest) \<and> length row \<noteq> 1) \<longrightarrow>
         poll_loop db ex retry (Suc left) k = (Some QueryShapeError, Suc k))
   \<and> ((\<forall>j<3. \<exists>v rest. db j = Rows ([v] # rest)
          \<and> (case expected of None \<Rightarrow> MatchValue (SBool True) | Some e \<Rightarrow> e) \<noteq> MatchValue v) \<longrightarrow>
         pollQueryUntil db expected retry 3 = (Some PollTimeout, 3))"
proof -
  let ?ex = "case expected of None \<Rightarrow> MatchValue (SBool True) | Some e \<Rightarrow> e"
  have 1: "pollQueryUntil db expected retry (Suc left) = (Some QueryShapeError, 1)"
    if "db 0 = Rows []"
    using that poll_loop_no_rows [of db 0 ?ex retry left] by (simp add: pollQueryUntil_def)
  have 2: "pollQueryUntil db expected retry (Suc left) = (Some QueryShapeError, 1)"
    if "db 0 = Rows (row # rest) \<and> length row \<noteq> 1" for row rest
    using that poll_loop_columns [of db 0 row rest ?ex retry left]
    by (simp add: pollQueryUntil_def)
  have 3: "poll_loop db ex retry (Suc left) k = (Some QueryShapeError, Suc k)"
    if "db k = Rows [] \<or> (\<exists>row rest. db k = Rows (row # rest) \<and> length row \<noteq> 1)" for k
    using that poll_loop_no_rows [of db k ex retry left] poll_loop_columns [of db k _ _ ex retry left]
    by blast
  have 4: "pollQueryUntil db expected retry 3 = (Some PollTimeout, 3)"
    if "\<forall>j<3. \<exists>v rest. db j = Rows ([v] # rest) \<and> ?ex \<noteq> MatchValue v"
    using that poll_loop_never_matches [of 0 3 db ?ex retry]
    by (simp add: pollQueryUntil_def)
  from 1 2 3 4 show ?thesis by blast
qed

theorem poll_shape_error_and_timeout_witness:
  "pollQueryUntil (\<lambda>k. Rows []) None False 5 = (Some QueryShapeError, 1)
   \<and> pollQueryUntil (\<lambda>k. Rows [[]]) None False 5 = (Some QueryShapeError, 1)
   \<and> pollQueryUntil (\<lambda>k. Rows [[SInt 1, SInt 2]]) None False 5 = (Some QueryShapeError, 1)
   \<and> pollQueryUntil (\<lambda>k. Rows [[SInt 3]]) (Some (MatchValue (SInt 1))) False 3 =
       (Some PollTimeout, 3)
   \<and> pollQueryUntil (\<lambda>k. Rows [[SBool False]]) None False 3 = (Some PollTimeout, 3)"
proof -
  have 5: "(5::nat) = Suc 4" by simp
  note a = poll_shape_error_and_timeout [of "\<lambda>k. Rows []" None False 4]
  note b = poll_shape_error_and_timeout [of "\<lambda>k. Rows [[]]" None False 4]
  note c = poll_shape_error_and_timeout [of "\<lambda>k. Rows [[SInt 1, SInt 2]]" None False 4]
  note d = poll_shape_error_and_timeout [of "\<lambda>k. Rows [[SInt 3]]" "Some (MatchValue (SInt 1))" False]
  note e = poll_shape_error_and_timeout [of "\<lambda>k. Rows [[SBool False]]" None False]
  from a have 1: "pollQueryUntil (\<lambda>k. Rows []) None False 5 = (Some QueryShapeError, 1)"
    unfolding 5 by simp
  from b have 2: "pollQueryUntil (\<lambda>k. Rows [[]]) None False 5 = (Some QueryShapeError, 1)"
    unfolding 5 by simp
  from c have 3: "pollQueryUntil (\<lambda>k. Rows [[SInt 1, SInt 2]]) None False 5 =
      (Some QueryShapeError, 1)"
    unfolding 5 by simp
  from d have 4: "pollQueryUntil (\<lambda>k. Rows [[SInt 3]]) (Some (MatchValue (SInt 1))) False 3 =
       (Some PollTimeout, 3)"
    by simp
  from e have 6: "pollQueryUntil (\<lambda>k. Rows [[SBool False]]) None False 3 = (Some PollTimeout, 3)"
    by simp
  from 1 2 3 4 6 show ?thesis by blast
qed

end
